theory Spec2Isabelle
  imports Complex_Main "HOL-Library.List_Lexorder" "HOL-Library.Char_ord"
begin

section \<open>CRM backend: data model\<close>

text \<open>
  A shallow embedding of the NestJS CRM backend: the services are functions over an
  explicit database state, every exception is a value, and every statement handed to
  the connection pool is recorded in a log.  JavaScript numbers that hold row ids,
  counts, page numbers and limits are modelled as unbounded integers, timestamps as
  natural numbers.  Calls to the logger are left out: they change nothing a caller
  can observe.
\<close>

datatype role = Admin | Viewer

text \<open>\<^verbatim>\<open>auth/interfaces/user.interface.ts\<close>: \<^verbatim>\<open>User\<close>, \<^verbatim>\<open>UserWithPassword extends User\<close>
  and \<^verbatim>\<open>JwtPayload\<close> (the optional \<^verbatim>\<open>iat\<close> and \<^verbatim>\<open>exp\<close> are filled in by the signer).\<close>

record User =
  id :: int
  username :: string
  role :: role

record UserWithPassword = User +
  password :: string

record JwtPayload =
  sub :: int
  username :: string
  role :: role

text \<open>\<^verbatim>\<open>user.service.ts\<close>: the outward user view (its \<^verbatim>\<open>User\<close> interface, alias
  \<^verbatim>\<open>UserWithoutPassword\<close>), and a row of the \<^verbatim>\<open>users\<close> table, which adds the
  \<^verbatim>\<open>password\<close> column.\<close>

record UserWithoutPassword = User +
  created_at :: nat
  updated_at :: nat

record user_row = UserWithoutPassword +
  password :: string

text \<open>\<^verbatim>\<open>customer.service.ts\<close>: \<^verbatim>\<open>Customer\<close>; \<^verbatim>\<open>company\<close> and \<^verbatim>\<open>address\<close> may be
  \<^verbatim>\<open>NULL\<close>.\<close>

record Customer =
  id :: int
  name :: string
  email :: string
  phone :: string
  company :: "string option"
  address :: "string option"
  created_at :: nat
  updated_at :: nat

text \<open>A row of the \<^verbatim>\<open>migrations\<close> ledger created by \<^verbatim>\<open>createMigrationsTable\<close>.\<close>

record migration_row =
  id :: int
  filename :: string
  executed_at :: nat

text \<open>The exceptions the services throw.  \<open>DatabaseError\<close> is the plain error that
  \<^verbatim>\<open>pool.execute\<close> rejects with and every \<^verbatim>\<open>DatabaseService\<close> method rethrows;
  \<open>FileSystemError\<close> is what \<^verbatim>\<open>fs.readFileSync\<close> throws.\<close>

datatype error =
    UnauthorizedException string
  | NotFoundException string
  | ConflictException string
  | DatabaseError string
  | FileSystemError string

text \<open>The status the framework answers with: each built-in HTTP exception carries its
  own status, any other error is reported as 500.\<close>

fun http_status :: "error \<Rightarrow> nat" where
  "http_status (UnauthorizedException _) = 401"
| "http_status (NotFoundException _) = 404"
| "http_status (ConflictException _) = 409"
| "http_status (DatabaseError _) = 500"
| "http_status (FileSystemError _) = 500"

text \<open>The assignments of a dynamically built \<^verbatim>\<open>UPDATE ... SET\<close> list: the source keeps
  the column texts in \<^verbatim>\<open>updateFields\<close> and the values in \<^verbatim>\<open>updateValues\<close>; the model
  keeps each pair together.\<close>

datatype user_assign =
    SetUsername string
  | SetPassword string
  | SetRole role
  | SetUserUpdatedAtNow

datatype customer_assign =
    SetName string
  | SetEmail string
  | SetPhone string
  | SetCompany "string option"
  | SetAddress "string option"
  | SetCustomerUpdatedAtNow

text \<open>Every SQL text the services pass to the pool, with its parameters.\<close>

datatype stmt =
    CreateMigrationsTable
  | SelectMigrationByFilename string
  | MigrationStatement string
  | InsertMigration string
  | SelectAdminId
  | InsertUser string string role
  | SelectUserByUsername string
  | SelectUserById int
  | SelectUserIdByUsernameExcept string int
  | CountUsers
  | SelectUsersPage int int
  | UpdateUsers "user_assign list" int
  | DeleteUser int
  | CountCustomers
  | SelectCustomersPage int int
  | SelectCustomerById int
  | UpdateCustomers "customer_assign list" int
  | SelectUserIdByUsername string
  | InsertUserNow string string role
  | SelectAuthUserById int
  | InsertCustomer string string string "string option" "string option"
  | DeleteCustomer int

text \<open>The MySQL database as the services see it.  \<open>online\<close> says whether the pool can
  reach the server; \<open>now\<close> is what \<^verbatim>\<open>NOW()\<close> and \<^verbatim>\<open>CURRENT_TIMESTAMP\<close> return; the
  ledger table is absent (\<open>None\<close>) until it is created, while the \<^verbatim>\<open>users\<close> and
  \<^verbatim>\<open>customers\<close> tables are taken to exist; the \<open>next_*\<close> fields are the
  \<^verbatim>\<open>AUTO_INCREMENT\<close> counters; \<open>issued\<close> is the log of statements handed to the pool,
  oldest first.\<close>

record db =
  online :: bool
  now :: nat
  migrations :: "migration_row list option"
  next_migration_id :: int
  users :: "user_row list"
  next_user_id :: int
  customers :: "Customer list"
  next_customer_id :: int
  issued :: "stmt list"

section \<open>Asynchronous calls that may throw\<close>

text \<open>An \<^verbatim>\<open>async\<close> method is a function from the database state to its outcome
  (\<open>Inl\<close> a thrown error, \<open>Inr\<close> the returned value) and the state it leaves behind.
  A throw keeps the effects that happened before it.\<close>

type_synonym 'a async = "db \<Rightarrow> (error + 'a) \<times> db"

definition return :: "'a \<Rightarrow> 'a async" where
  "return x = (\<lambda>d. (Inr x, d))"

definition throw :: "error \<Rightarrow> 'a async" where
  "throw e = (\<lambda>d. (Inl e, d))"

definition await :: "'a async \<Rightarrow> ('a \<Rightarrow> 'b async) \<Rightarrow> 'b async" where
  "await m f = (\<lambda>d. case m d of (Inl e, d') \<Rightarrow> (Inl e, d') | (Inr x, d') \<Rightarrow> f x d')"

definition try_catch :: "'a async \<Rightarrow> (error \<Rightarrow> 'a async) \<Rightarrow> 'a async" where
  "try_catch m h = (\<lambda>d. case m d of (Inl e, d') \<Rightarrow> h e d' | (Inr x, d') \<Rightarrow> (Inr x, d'))"

text \<open>Decimal text of a number, as a template literal prints it.\<close>

fun show_nat :: "nat \<Rightarrow> string" where
  "show_nat n = (if n < 10 then [char_of (48 + n)] else show_nat (n div 10) @ [char_of (48 + n mod 10)])"

declare show_nat.simps [simp del]

definition show_int :: "int \<Rightarrow> string" where
  "show_int i = (if i < 0 then CHR ''-'' # show_nat (nat (- i)) else show_nat (nat i))"

section \<open>DatabaseService\<close>

text \<open>\<^verbatim>\<open>pool.execute\<close> behind \<^verbatim>\<open>executeQuery\<close>, \<^verbatim>\<open>executeInsert\<close>, \<^verbatim>\<open>executeUpdate\<close> and
  \<^verbatim>\<open>executeDelete\<close>: the statement is logged, then run on the tables when the server
  is reachable; otherwise the call rejects and the wrapper rethrows.\<close>

definition pool_execute :: "stmt \<Rightarrow> 'a async \<Rightarrow> 'a async" where
  "pool_execute s run = (\<lambda>d.
     let d1 = d\<lparr>issued := issued d @ [s]\<rparr>
     in if online d1 then run d1 else (Inl (DatabaseError ''connect ECONNREFUSED''), d1))"

text \<open>The tables follow the schema of the migration scripts: \<^verbatim>\<open>users.username\<close> and
  \<^verbatim>\<open>migrations.filename\<close> are \<^verbatim>\<open>UNIQUE\<close>, so a statement that would duplicate one is
  rejected.  Strings are compared exactly.\<close>

text \<open>\<^verbatim>\<open>CREATE TABLE IF NOT EXISTS migrations (...)\<close>\<close>

definition create_migrations_table :: "unit async" where
  "create_migrations_table = pool_execute CreateMigrationsTable (\<lambda>d.
     (Inr (), d\<lparr>migrations := Some (case migrations d of None \<Rightarrow> [] | Some rows \<Rightarrow> rows)\<rparr>))"

text \<open>\<^verbatim>\<open>SELECT id FROM migrations WHERE filename = ?\<close>\<close>

definition select_migration_by_filename :: "string \<Rightarrow> int list async" where
  "select_migration_by_filename file = pool_execute (SelectMigrationByFilename file) (\<lambda>d.
     case migrations d of
       None \<Rightarrow> (Inl (DatabaseError ''ER_NO_SUCH_TABLE''), d)
     | Some rows \<Rightarrow>
         (Inr (map migration_row.id (filter (\<lambda>r. migration_row.filename r = file) rows)), d))"

text \<open>\<^verbatim>\<open>INSERT INTO migrations (filename) VALUES (?)\<close>, answering \<^verbatim>\<open>insertId\<close>.\<close>

definition insert_migration :: "string \<Rightarrow> int async" where
  "insert_migration file = pool_execute (InsertMigration file) (\<lambda>d.
     case migrations d of
       None \<Rightarrow> (Inl (DatabaseError ''ER_NO_SUCH_TABLE''), d)
     | Some rows \<Rightarrow>
         if file \<in> set (map migration_row.filename rows)
         then (Inl (DatabaseError ''ER_DUP_ENTRY''), d)
         else (Inr (next_migration_id d),
               d\<lparr>migrations := Some (rows @
                      [\<lparr>migration_row.id = next_migration_id d,
                        migration_row.filename = file,
                        migration_row.executed_at = now d\<rparr>]),
                 next_migration_id := next_migration_id d + 1\<rparr>))"

text \<open>One statement of a migration script.  What an arbitrary SQL text does to the
  database is not fixed by the program: it is the parameter \<open>exec\<close>.\<close>

definition migration_statement :: "(string \<Rightarrow> unit async) \<Rightarrow> string \<Rightarrow> unit async" where
  "migration_statement exec statement = pool_execute (MigrationStatement statement) (exec statement)"

text \<open>\<^verbatim>\<open>SELECT id FROM users WHERE role = ? LIMIT 1\<close> with \<^verbatim>\<open>['admin']\<close>\<close>

definition select_admin_id :: "int list async" where
  "select_admin_id = pool_execute SelectAdminId (\<lambda>d.
     (Inr (take 1 (map User.id (filter (\<lambda>r. User.role r = Admin) (users d)))), d))"

text \<open>\<^verbatim>\<open>INSERT INTO users (username, password, role) VALUES (?, ?, ?)\<close>, answering
  \<^verbatim>\<open>insertId\<close>; both timestamp columns default to \<^verbatim>\<open>CURRENT_TIMESTAMP\<close>.\<close>

definition insert_user :: "string \<Rightarrow> string \<Rightarrow> role \<Rightarrow> int async" where
  "insert_user uname pw rl = pool_execute (InsertUser uname pw rl) (\<lambda>d.
     if uname \<in> set (map User.username (users d))
     then (Inl (DatabaseError ''ER_DUP_ENTRY''), d)
     else (Inr (next_user_id d),
           d\<lparr>users := users d @
                  [\<lparr>User.id = next_user_id d, User.username = uname, User.role = rl,
                    UserWithoutPassword.created_at = now d,
                    UserWithoutPassword.updated_at = now d,
                    user_row.password = pw\<rparr>],
             next_user_id := next_user_id d + 1\<rparr>))"

text \<open>\<^verbatim>\<open>SELECT id, username, password, role FROM users WHERE username = ?\<close>\<close>

definition select_user_by_username :: "string \<Rightarrow> UserWithPassword list async" where
  "select_user_by_username uname = pool_execute (SelectUserByUsername uname) (\<lambda>d.
     (Inr (map (\<lambda>r. \<lparr>User.id = User.id r, User.username = User.username r,
                       User.role = User.role r,
                       UserWithPassword.password = user_row.password r\<rparr>)
            (filter (\<lambda>r. User.username r = uname) (users d))), d))"

text \<open>\<^verbatim>\<open>SELECT id, username, role, created_at, updated_at FROM users WHERE id = ?\<close>\<close>

definition select_user_by_id :: "int \<Rightarrow> UserWithoutPassword list async" where
  "select_user_by_id uid = pool_execute (SelectUserById uid) (\<lambda>d.
     (Inr (map UserWithoutPassword.truncate (filter (\<lambda>r. User.id r = uid) (users d))), d))"

text \<open>\<^verbatim>\<open>SELECT id FROM users WHERE username = ? AND id != ?\<close>\<close>

definition select_user_id_by_username_except :: "string \<Rightarrow> int \<Rightarrow> int list async" where
  "select_user_id_by_username_except uname uid =
     pool_execute (SelectUserIdByUsernameExcept uname uid) (\<lambda>d.
       (Inr (map User.id (filter (\<lambda>r. User.username r = uname \<and> User.id r \<noteq> uid) (users d))), d))"

text \<open>\<^verbatim>\<open>SELECT COUNT(*) as total FROM users\<close>: always one row, whose \<^verbatim>\<open>total\<close> is
  returned.\<close>

definition count_users :: "int async" where
  "count_users = pool_execute CountUsers (\<lambda>d. (Inr (int (length (users d))), d))"

text \<open>\<^verbatim>\<open>SELECT ... FROM users ORDER BY created_at DESC LIMIT ${limit} OFFSET ${offset}\<close>.
  A negative number after \<^verbatim>\<open>LIMIT\<close> or \<^verbatim>\<open>OFFSET\<close> is a syntax error.  MySQL leaves the
  order of rows with equal \<^verbatim>\<open>created_at\<close> open; the model takes the later row first.\<close>

definition select_users_page :: "int \<Rightarrow> int \<Rightarrow> UserWithoutPassword list async" where
  "select_users_page lmt ofs = pool_execute (SelectUsersPage lmt ofs) (\<lambda>d.
     if lmt < 0 \<or> ofs < 0 then (Inl (DatabaseError ''ER_PARSE_ERROR''), d)
     else (Inr (take (nat lmt) (drop (nat ofs)
                  (map UserWithoutPassword.truncate
                     (rev (sort_key UserWithoutPassword.created_at (users d)))))), d))"

fun apply_user_assign :: "nat \<Rightarrow> user_row \<Rightarrow> user_assign \<Rightarrow> user_row" where
  "apply_user_assign t r (SetUsername n) = r\<lparr>User.username := n\<rparr>"
| "apply_user_assign t r (SetPassword p) = r\<lparr>user_row.password := p\<rparr>"
| "apply_user_assign t r (SetRole rl) = r\<lparr>User.role := rl\<rparr>"
| "apply_user_assign t r SetUserUpdatedAtNow = r\<lparr>UserWithoutPassword.updated_at := t\<rparr>"

text \<open>\<^verbatim>\<open>UPDATE users SET ${updateFields.join(', ')} WHERE id = ?\<close>\<close>

definition update_users :: "user_assign list \<Rightarrow> int \<Rightarrow> unit async" where
  "update_users assigns uid = pool_execute (UpdateUsers assigns uid) (\<lambda>d.
     let rows = map (\<lambda>r. if User.id r = uid then foldl (apply_user_assign (now d)) r assigns else r)
                  (users d)
     in if distinct (map User.username rows) then (Inr (), d\<lparr>users := rows\<rparr>)
        else (Inl (DatabaseError ''ER_DUP_ENTRY''), d))"

text \<open>\<^verbatim>\<open>DELETE FROM users WHERE id = ?\<close>, answering \<^verbatim>\<open>affectedRows\<close>.\<close>

definition delete_user :: "int \<Rightarrow> nat async" where
  "delete_user uid = pool_execute (DeleteUser uid) (\<lambda>d.
     (Inr (length (filter (\<lambda>r. User.id r = uid) (users d))),
      d\<lparr>users := filter (\<lambda>r. User.id r \<noteq> uid) (users d)\<rparr>))"

text \<open>\<^verbatim>\<open>SELECT COUNT(*) as total FROM customers\<close>\<close>

definition count_customers :: "int async" where
  "count_customers = pool_execute CountCustomers (\<lambda>d. (Inr (int (length (customers d))), d))"

text \<open>\<^verbatim>\<open>SELECT ... FROM customers ORDER BY created_at DESC LIMIT ${limit} OFFSET ${offset}\<close>\<close>

definition select_customers_page :: "int \<Rightarrow> int \<Rightarrow> Customer list async" where
  "select_customers_page lmt ofs = pool_execute (SelectCustomersPage lmt ofs) (\<lambda>d.
     if lmt < 0 \<or> ofs < 0 then (Inl (DatabaseError ''ER_PARSE_ERROR''), d)
     else (Inr (take (nat lmt) (drop (nat ofs)
                  (rev (sort_key Customer.created_at (customers d))))), d))"

text \<open>\<^verbatim>\<open>SELECT ... FROM customers WHERE id = ?\<close>\<close>

definition select_customer_by_id :: "int \<Rightarrow> Customer list async" where
  "select_customer_by_id cid = pool_execute (SelectCustomerById cid) (\<lambda>d.
     (Inr (filter (\<lambda>r. Customer.id r = cid) (customers d)), d))"

fun apply_customer_assign :: "nat \<Rightarrow> Customer \<Rightarrow> customer_assign \<Rightarrow> Customer" where
  "apply_customer_assign t r (SetName v) = r\<lparr>Customer.name := v\<rparr>"
| "apply_customer_assign t r (SetEmail v) = r\<lparr>Customer.email := v\<rparr>"
| "apply_customer_assign t r (SetPhone v) = r\<lparr>Customer.phone := v\<rparr>"
| "apply_customer_assign t r (SetCompany v) = r\<lparr>Customer.company := v\<rparr>"
| "apply_customer_assign t r (SetAddress v) = r\<lparr>Customer.address := v\<rparr>"
| "apply_customer_assign t r SetCustomerUpdatedAtNow = r\<lparr>Customer.updated_at := t\<rparr>"

text \<open>\<^verbatim>\<open>UPDATE customers SET ${updateFields.join(', ')} WHERE id = ?\<close>\<close>

definition update_customers :: "customer_assign list \<Rightarrow> int \<Rightarrow> unit async" where
  "update_customers assigns cid = pool_execute (UpdateCustomers assigns cid) (\<lambda>d.
     (Inr (), d\<lparr>customers :=
        map (\<lambda>r. if Customer.id r = cid then foldl (apply_customer_assign (now d)) r assigns else r)
          (customers d)\<rparr>))"






section \<open>Pagination\<close>

text \<open>\<^verbatim>\<open>dto/pagination.dto.ts\<close>.  Both query fields are optional.\<close>

record PaginationQueryDto =
  page :: "int option"
  limit :: "int option"

record PaginationMetaDto =
  total :: int
  page :: int
  limit :: int
  totalPages :: int
  hasNext :: bool
  hasPrev :: bool

record 'a Paginated =
  data :: "'a list"
  pagination :: PaginationMetaDto

text \<open>\<^verbatim>\<open>const { page = 1, limit = 10 } = paginationQuery || {}\<close>\<close>

definition page_or_default :: "PaginationQueryDto option \<Rightarrow> int" where
  "page_or_default paginationQuery =
     (case paginationQuery of None \<Rightarrow> 1
      | Some q \<Rightarrow> (case PaginationQueryDto.page q of None \<Rightarrow> 1 | Some p \<Rightarrow> p))"

definition limit_or_default :: "PaginationQueryDto option \<Rightarrow> int" where
  "limit_or_default paginationQuery =
     (case paginationQuery of None \<Rightarrow> 10
      | Some q \<Rightarrow> (case PaginationQueryDto.limit q of None \<Rightarrow> 10 | Some l \<Rightarrow> l))"

text \<open>The block under ``Calculate pagination metadata'', the same in both services.
  \<^verbatim>\<open>Math.ceil(total / limit)\<close> works on doubles; the model divides exactly, which agrees
  with the doubles as long as the count stays far below \<open>2^53\<close>.\<close>

definition pagination_meta :: "int \<Rightarrow> int \<Rightarrow> int \<Rightarrow> PaginationMetaDto" where
  "pagination_meta tot pg lmt =
     (let totalPages = \<lceil>real_of_int tot / real_of_int lmt\<rceil>;
          hasNext = (pg < totalPages);
          hasPrev = (pg > 1)
      in \<lparr>PaginationMetaDto.total = tot, PaginationMetaDto.page = pg,
          PaginationMetaDto.limit = lmt, PaginationMetaDto.totalPages = totalPages,
          PaginationMetaDto.hasNext = hasNext, PaginationMetaDto.hasPrev = hasPrev\<rparr>)"

section \<open>UserService\<close>

text \<open>\<^verbatim>\<open>dto/update-user.dto.ts\<close>\<close>

record UpdateUserDto =
  username :: "string option"
  password :: "string option"
  role :: "role option"

text \<open>JavaScript truthiness of an optional string: defined and not empty.\<close>

definition truthy :: "string option \<Rightarrow> bool" where
  "truthy v = (case v of None \<Rightarrow> False | Some s \<Rightarrow> s \<noteq> [])"

definition UserService_findAll :: "PaginationQueryDto option \<Rightarrow> UserWithoutPassword Paginated async" where
  "UserService_findAll paginationQuery =
     (let pg = page_or_default paginationQuery;
          lmt = limit_or_default paginationQuery;
          ofs = (pg - 1) * lmt
      in await count_users (\<lambda>tot.
         await (select_users_page lmt ofs) (\<lambda>rows.
           return \<lparr>data = rows, pagination = pagination_meta tot pg lmt\<rparr>)))"

definition UserService_findById :: "int \<Rightarrow> UserWithoutPassword async" where
  "UserService_findById uid =
     await (select_user_by_id uid) (\<lambda>rows.
       case rows of
         [] \<Rightarrow> throw (NotFoundException (''User with ID '' @ show_int uid @ '' not found''))
       | u # _ \<Rightarrow> return u)"

text \<open>\<^verbatim>\<open>dto/create-user.dto.ts\<close>; the class initialiser gives \<^verbatim>\<open>role\<close> the value
  \<^verbatim>\<open>viewer\<close> when the request names none.\<close>

record CreateUserDto =
  username :: string
  password :: string
  role :: role


text \<open>\<^verbatim>\<open>UserService.update\<close>.  \<open>hash\<close> is \<^verbatim>\<open>bcrypt.hash\<close> (password, salt rounds); its
  random salt is not modelled.  The three \<^verbatim>\<open>if\<close> blocks each contribute their
  assignment or nothing.\<close>

definition UserService_update ::
  "(string \<Rightarrow> nat \<Rightarrow> string) \<Rightarrow> int \<Rightarrow> UpdateUserDto \<Rightarrow> UserWithoutPassword async" where
  "UserService_update hash uid updateUserDto =
     await (UserService_findById uid) (\<lambda>_.
     await (if truthy (UpdateUserDto.username updateUserDto)
            then await (select_user_id_by_username_except
                          (the (UpdateUserDto.username updateUserDto)) uid) (\<lambda>existingUsers.
                   if length existingUsers > 0
                   then throw (ConflictException ''Username already exists'')
                   else return [SetUsername (the (UpdateUserDto.username updateUserDto))])
            else return []) (\<lambda>fields1.
       let fields2 = fields1 @
             (if truthy (UpdateUserDto.password updateUserDto)
              then [SetPassword (hash (the (UpdateUserDto.password updateUserDto)) 10)] else []);
           fields3 = fields2 @
             (case UpdateUserDto.role updateUserDto of None \<Rightarrow> [] | Some rl \<Rightarrow> [SetRole rl])
       in if length fields3 = 0 then UserService_findById uid
          else await (update_users (fields3 @ [SetUserUpdatedAtNow]) uid) (\<lambda>_.
                 UserService_findById uid)))"

definition UserService_delete :: "int \<Rightarrow> int \<Rightarrow> unit async" where
  "UserService_delete uid currentUserId =
     (if uid = currentUserId then throw (ConflictException ''Cannot delete your own account'')
      else
        await (UserService_findById uid) (\<lambda>_.
        await (delete_user uid) (\<lambda>affectedRows.
          if affectedRows = 0
          then throw (NotFoundException (''User with ID '' @ show_int uid @ '' not found''))
          else return ())))"

section \<open>CustomerService\<close>

text \<open>\<^verbatim>\<open>dto/update-customer.dto.ts\<close>\<close>

record UpdateCustomerDto =
  name :: "string option"
  email :: "string option"
  phone :: "string option"
  company :: "string option"
  address :: "string option"

text \<open>\<^verbatim>\<open>value || null\<close> on a string: the empty string becomes \<^verbatim>\<open>NULL\<close>.\<close>

definition or_null :: "string \<Rightarrow> string option" where
  "or_null v = (if v = [] then None else Some v)"

definition CustomerService_findAll :: "PaginationQueryDto option \<Rightarrow> Customer Paginated async" where
  "CustomerService_findAll paginationQuery =
     (let pg = page_or_default paginationQuery;
          lmt = limit_or_default paginationQuery;
          ofs = (pg - 1) * lmt
      in await count_customers (\<lambda>tot.
         await (select_customers_page lmt ofs) (\<lambda>rows.
           return \<lparr>data = rows, pagination = pagination_meta tot pg lmt\<rparr>)))"

definition CustomerService_findById :: "int \<Rightarrow> Customer async" where
  "CustomerService_findById cid =
     await (select_customer_by_id cid) (\<lambda>rows.
       case rows of
         [] \<Rightarrow> throw (NotFoundException (''Customer with ID '' @ show_int cid @ '' not found''))
       | c # _ \<Rightarrow> return c)"

text \<open>\<^verbatim>\<open>dto/create-customer.dto.ts\<close>\<close>

record CreateCustomerDto =
  name :: string
  email :: string
  phone :: string
  company :: "string option"
  address :: "string option"



text \<open>The five \<^verbatim>\<open>!== undefined\<close> blocks of \<^verbatim>\<open>CustomerService.update\<close>, in order.\<close>

definition customer_update_fields :: "UpdateCustomerDto \<Rightarrow> customer_assign list" where
  "customer_update_fields dto =
     (case UpdateCustomerDto.name dto of None \<Rightarrow> [] | Some v \<Rightarrow> [SetName v]) @
     (case UpdateCustomerDto.email dto of None \<Rightarrow> [] | Some v \<Rightarrow> [SetEmail v]) @
     (case UpdateCustomerDto.phone dto of None \<Rightarrow> [] | Some v \<Rightarrow> [SetPhone v]) @
     (case UpdateCustomerDto.company dto of None \<Rightarrow> [] | Some v \<Rightarrow> [SetCompany (or_null v)]) @
     (case UpdateCustomerDto.address dto of None \<Rightarrow> [] | Some v \<Rightarrow> [SetAddress (or_null v)])"

definition CustomerService_update :: "int \<Rightarrow> UpdateCustomerDto \<Rightarrow> Customer async" where
  "CustomerService_update cid updateCustomerDto =
     await (CustomerService_findById cid) (\<lambda>_.
       let updateFields = customer_update_fields updateCustomerDto
       in if length updateFields = 0 then CustomerService_findById cid
          else await (update_customers (updateFields @ [SetCustomerUpdatedAtNow]) cid) (\<lambda>_.
                 CustomerService_findById cid))"

section \<open>AuthService\<close>

record LoginDto =
  username :: string
  password :: string

record LoginResult =
  access_token :: string
  user :: User

text \<open>\<^verbatim>\<open>AuthService.validateUser\<close>.  \<open>compare\<close> is \<^verbatim>\<open>bcrypt.compare\<close> (plain password,
  stored hash).  Whatever is thrown inside the \<^verbatim>\<open>try\<close> is caught and answered with
  \<^verbatim>\<open>null\<close>.\<close>

definition validateUser ::
  "(string \<Rightarrow> string \<Rightarrow> bool) \<Rightarrow> string \<Rightarrow> string \<Rightarrow> User option async" where
  "validateUser compare uname pw =
     try_catch
       (await (select_user_by_username uname) (\<lambda>rows.
          case rows of
            [] \<Rightarrow> return None
          | u # _ \<Rightarrow>
              if \<not> compare pw (UserWithPassword.password u) then return None
              else return (Some \<lparr>User.id = User.id u, User.username = User.username u,
                                  User.role = User.role u\<rparr>)))
       (\<lambda>err. return None)"

text \<open>\<^verbatim>\<open>AuthService.login\<close>.  \<open>sign\<close> is \<^verbatim>\<open>jwtService.sign\<close>.\<close>

definition login ::
  "(JwtPayload \<Rightarrow> string) \<Rightarrow> (string \<Rightarrow> string \<Rightarrow> bool) \<Rightarrow> LoginDto \<Rightarrow> LoginResult async" where
  "login sign compare loginDto =
     await (validateUser compare (LoginDto.username loginDto) (LoginDto.password loginDto))
       (\<lambda>validated.
          case validated of
            None \<Rightarrow> throw (UnauthorizedException ''Invalid credentials'')
          | Some u \<Rightarrow>
              (let payload = \<lparr>JwtPayload.sub = User.id u, JwtPayload.username = User.username u,
                               JwtPayload.role = User.role u\<rparr>;
                   token = sign payload
               in return \<lparr>access_token = token,
                          user = \<lparr>User.id = User.id u, User.username = User.username u,
                                   User.role = User.role u\<rparr>\<rparr>))"



section \<open>MigrationService\<close>

text \<open>The two places a migrations directory may be: \<^verbatim>\<open>path.join(__dirname, 'migrations')\<close>
  and \<^verbatim>\<open>path.join(process.cwd(), 'src/database/migrations')\<close>.  A directory is absent
  (\<open>None\<close>) or lists its files, name and content.\<close>

record file_system =
  dirname_migrations :: "(string \<times> string) list option"
  cwd_src_migrations :: "(string \<times> string) list option"

text \<open>\<^verbatim>\<open>String.prototype.endsWith\<close>, \<^verbatim>\<open>split\<close> on a one-character separator, and \<^verbatim>\<open>trim\<close>
  (for the ASCII white space: space, tab, line feed, vertical tab, form feed, carriage
  return).\<close>

definition endsWith :: "string \<Rightarrow> string \<Rightarrow> bool" where
  "endsWith s suffix = (length suffix \<le> length s \<and> drop (length s - length suffix) s = suffix)"

fun split :: "char \<Rightarrow> string \<Rightarrow> string list" where
  "split sep [] = [[]]"
| "split sep (c # cs) =
     (if c = sep then [] # split sep cs
      else (case split sep cs of [] \<Rightarrow> [[c]] | w # ws \<Rightarrow> (c # w) # ws))"

definition is_space :: "char \<Rightarrow> bool" where
  "is_space c = (c \<in> set [CHR '' '', CHR 0x09, CHR 0x0A, CHR 0x0B, CHR 0x0C, CHR 0x0D])"

definition trim :: "string \<Rightarrow> string" where
  "trim s = rev (dropWhile is_space (rev (dropWhile is_space s)))"

text \<open>The directory \<^verbatim>\<open>runMigrations\<close> settles on, if any.\<close>

definition migrationsDir :: "file_system \<Rightarrow> (string \<times> string) list option" where
  "migrationsDir fs =
     (case dirname_migrations fs of Some dir \<Rightarrow> Some dir | None \<Rightarrow> cwd_src_migrations fs)"

text \<open>\<^verbatim>\<open>fs.readdirSync(migrationsDir).filter((file) => file.endsWith('.sql')).sort()\<close>\<close>

definition migrationFiles :: "(string \<times> string) list \<Rightarrow> string list" where
  "migrationFiles dir = sort (filter (\<lambda>file. endsWith file ''.sql'') (map fst dir))"

text \<open>The path \<^verbatim>\<open>runMigration\<close> settles on and \<^verbatim>\<open>fs.readFileSync\<close> of it.\<close>

definition readMigrationFile :: "file_system \<Rightarrow> string \<Rightarrow> string option" where
  "readMigrationFile fs file =
     (case (case dirname_migrations fs of None \<Rightarrow> None | Some dir \<Rightarrow> map_of dir file) of
        Some content \<Rightarrow> Some content
      | None \<Rightarrow> (case cwd_src_migrations fs of None \<Rightarrow> None | Some dir \<Rightarrow> map_of dir file))"

definition createMigrationsTable :: "unit async" where
  "createMigrationsTable = create_migrations_table"

text \<open>\<^verbatim>\<open>migrationSql.split(';').map((stmt) => stmt.trim()).filter((stmt) => stmt.length > 0)\<close>\<close>

definition statements_of :: "string \<Rightarrow> string list" where
  "statements_of migrationSql =
     filter (\<lambda>stmt. length stmt > 0) (map trim (split CHR '';'' migrationSql))"

text \<open>\<^verbatim>\<open>for (const statement of statements) await executeQuery(statement)\<close>\<close>

fun execute_statements :: "(string \<Rightarrow> unit async) \<Rightarrow> string list \<Rightarrow> unit async" where
  "execute_statements exec [] = return ()"
| "execute_statements exec (statement # rest) =
     await (migration_statement exec statement) (\<lambda>_. execute_statements exec rest)"

definition runMigration :: "(string \<Rightarrow> unit async) \<Rightarrow> file_system \<Rightarrow> string \<Rightarrow> unit async" where
  "runMigration exec fs file =
     await (select_migration_by_filename file) (\<lambda>existing.
       if length existing > 0 then return ()
       else
         try_catch
           (case readMigrationFile fs file of
              None \<Rightarrow> throw (FileSystemError ''ENOENT'')
            | Some migrationSql \<Rightarrow>
                await (execute_statements exec (statements_of migrationSql)) (\<lambda>_.
                await (insert_migration file) (\<lambda>_. return ())))
           (\<lambda>err. throw err))"

text \<open>\<^verbatim>\<open>for (const file of migrationFiles) await this.runMigration(file)\<close>\<close>

fun run_each :: "(string \<Rightarrow> unit async) \<Rightarrow> file_system \<Rightarrow> string list \<Rightarrow> unit async" where
  "run_each exec fs [] = return ()"
| "run_each exec fs (file # rest) =
     await (runMigration exec fs file) (\<lambda>_. run_each exec fs rest)"

definition runMigrations :: "(string \<Rightarrow> unit async) \<Rightarrow> file_system \<Rightarrow> unit async" where
  "runMigrations exec fs =
     try_catch
       (await createMigrationsTable (\<lambda>_.
          case migrationsDir fs of
            None \<Rightarrow> return ()
          | Some dir \<Rightarrow> run_each exec fs (migrationFiles dir)))
       (\<lambda>err. throw err)"

definition seedDefaultAdmin :: "(string \<Rightarrow> nat \<Rightarrow> string) \<Rightarrow> unit async" where
  "seedDefaultAdmin hash =
     try_catch
       (await select_admin_id (\<lambda>adminCheck.
          if length adminCheck > 0 then return ()
          else (let hashedPassword = hash ''Admin@123'' 10
                in await (insert_user ''admin'' hashedPassword Admin) (\<lambda>_. return ()))))
       (\<lambda>err. throw err)"

section \<open>Startup\<close>

text \<open>\<^verbatim>\<open>bootstrap\<close> in \<^verbatim>\<open>main.ts\<close>, and the \<^verbatim>\<open>catch\<close> after it.  \<^verbatim>\<open>app.init()\<close> runs
  \<^verbatim>\<open>DatabaseService.onModuleInit\<close>, whose \<^verbatim>\<open>createPool\<close> pings the server and rethrows a
  failure: \<^verbatim>\<open>bootstrap\<close> then rejects and the process exits with code 1.  Past that
  point the \<^verbatim>\<open>try\<close> around migrations and seeding swallows every error, and
  \<^verbatim>\<open>app.listen\<close> follows (binding the port is taken to succeed).\<close>

datatype process = Exited int | Listening

definition bootstrap ::
  "(string \<Rightarrow> unit async) \<Rightarrow> (string \<Rightarrow> nat \<Rightarrow> string) \<Rightarrow> file_system \<Rightarrow> db \<Rightarrow> process \<times> db" where
  "bootstrap exec hash fs d =
     (if \<not> online d then (Exited 1, d)
      else
        (case try_catch
                (await (runMigrations exec fs) (\<lambda>_. seedDefaultAdmin hash))
                (\<lambda>err. return ()) d of
           (_, d') \<Rightarrow> (Listening, d')))"

section \<open>HealthService\<close>

record ReadinessChecks =
  database :: string
  configuration :: string

record ReadinessStatus =
  status :: string
  timestamp :: string
  checks :: ReadinessChecks

text \<open>\<^verbatim>\<open>checkConfiguration\<close>: the loop over \<^verbatim>\<open>requiredConfig\<close>; \<^verbatim>\<open>!configService.get(config)\<close>
  holds for a missing and for an empty value.\<close>

fun check_each :: "(string \<Rightarrow> string option) \<Rightarrow> string list \<Rightarrow> string" where
  "check_each cfg [] = ''ok''"
| "check_each cfg (c # cs) = (if \<not> truthy (cfg c) then ''error'' else check_each cfg cs)"

definition checkConfiguration :: "(string \<Rightarrow> string option) \<Rightarrow> string" where
  "checkConfiguration cfg = check_each cfg [''NODE_ENV'', ''JWT_SECRET'']"

text \<open>\<^verbatim>\<open>getReadinessStatus\<close>; \<open>iso_now\<close> is \<^verbatim>\<open>new Date().toISOString()\<close>.\<close>

definition getReadinessStatus :: "(string \<Rightarrow> string option) \<Rightarrow> string \<Rightarrow> ReadinessStatus" where
  "getReadinessStatus cfg iso_now =
     \<lparr>status = ''ready'', timestamp = iso_now,
      checks = \<lparr>database = ''ok'', configuration = checkConfiguration cfg\<rparr>\<rparr>"

text \<open>The running application a request meets: its configuration, its clock and its
  database.  \<^verbatim>\<open>GET /health/ready\<close> is \<^verbatim>\<open>HealthController.getReadiness\<close>.\<close>

record app =
  config :: "string \<Rightarrow> string option"
  clock :: string
  app_db :: db

definition getReadiness :: "app \<Rightarrow> ReadinessStatus" where
  "getReadiness a = getReadinessStatus (config a) (clock a)"

text \<open>The repository holds a second \<^verbatim>\<open>HealthService\<close>, whose constructor also takes the
  \<^verbatim>\<open>DatabaseService\<close>.  Its \<^verbatim>\<open>checkDatabase\<close> asks \<^verbatim>\<open>DatabaseService.checkConnection\<close>,
  which pings the server and answers \<^verbatim>\<open>false\<close> when that throws; its
  \<^verbatim>\<open>checkConfiguration\<close> requires six keys.\<close>

definition checkConnection :: "db \<Rightarrow> bool" where
  "checkConnection d = online d"

definition checkDatabase :: "db \<Rightarrow> string" where
  "checkDatabase d = (if checkConnection d then ''ok'' else ''error'')"

definition checkConfiguration_six :: "(string \<Rightarrow> string option) \<Rightarrow> string" where
  "checkConfiguration_six cfg =
     check_each cfg [''NODE_ENV'', ''JWT_SECRET'', ''MYSQL_HOST'', ''MYSQL_USERNAME'',
                     ''MYSQL_PASSWORD'', ''MYSQL_NAME'']"

definition getReadinessStatus_with_database ::
  "(string \<Rightarrow> string option) \<Rightarrow> string \<Rightarrow> db \<Rightarrow> ReadinessStatus" where
  "getReadinessStatus_with_database cfg iso_now d =
     (let databaseStatus = checkDatabase d;
          configStatus = checkConfiguration_six cfg
      in \<lparr>status = (if databaseStatus = ''ok'' \<and> configStatus = ''ok'' then ''ready''
                    else ''not_ready''),
          timestamp = iso_now,
          checks = \<lparr>database = databaseStatus, configuration = configStatus\<rparr>\<rparr>)"

definition getReadiness_with_database :: "app \<Rightarrow> ReadinessStatus" where
  "getReadiness_with_database a =
     getReadinessStatus_with_database (config a) (clock a) (app_db a)"

section \<open>Notions used to state the properties\<close>


text \<open>The error of the pool, as opposed to an exception a service throws itself.\<close>

fun database_error :: "error \<Rightarrow> bool" where
  "database_error (DatabaseError _) = True"
| "database_error _ = False"

text \<open>An outcome that, when it is a failure, is the error of the pool or else an
  exception of the service that meets the condition \<open>own\<close>.\<close>

definition only_fails_with :: "(error + 'a) \<times> db \<Rightarrow> (error \<Rightarrow> bool) \<Rightarrow> bool" where
  "only_fails_with outcome own =
     (case fst outcome of Inl e \<Rightarrow> database_error e \<or> own e | Inr _ \<Rightarrow> True)"

text \<open>The pagination block of a list result; \<open>None\<close> when the call threw.\<close>

definition pagination_of :: "(error + 'a Paginated) \<times> db \<Rightarrow> PaginationMetaDto option" where
  "pagination_of outcome = (case fst outcome of Inl _ \<Rightarrow> None | Inr r \<Rightarrow> Some (pagination r))"

text \<open>The filenames recorded in the ledger.\<close>

definition ledger_files :: "db \<Rightarrow> string set" where
  "ledger_files d =
     (case migrations d of None \<Rightarrow> {} | Some rows \<Rightarrow> set (map migration_row.filename rows))"

text \<open>A script interpreter that never writes to the ledger table.\<close>

definition keeps_ledger :: "(string \<Rightarrow> unit async) \<Rightarrow> bool" where
  "keeps_ledger exec = (\<forall>statement d. migrations (snd (exec statement d)) = migrations d)"

text \<open>The row the seeder's \<^verbatim>\<open>INSERT\<close> creates in database \<open>d\<close>.\<close>

definition default_admin_row :: "(string \<Rightarrow> nat \<Rightarrow> string) \<Rightarrow> db \<Rightarrow> user_row" where
  "default_admin_row hash d =
     \<lparr>User.id = next_user_id d, User.username = ''admin'', User.role = Admin,
      UserWithoutPassword.created_at = now d, UserWithoutPassword.updated_at = now d,
      user_row.password = hash ''Admin@123'' 10\<rparr>"

section \<open>Concrete data\<close>

text \<open>Stand-ins for bcrypt and the token signer, a few databases, a migrations
  directory and two script interpreters, on which the properties are instantiated.\<close>

definition demo_hash :: "string \<Rightarrow> nat \<Rightarrow> string" where
  "demo_hash pw rounds = ''$2b$'' @ pw"

definition demo_compare :: "string \<Rightarrow> string \<Rightarrow> bool" where
  "demo_compare pw hashed = (hashed = demo_hash pw 10)"

definition demo_sign :: "JwtPayload \<Rightarrow> string" where
  "demo_sign payload = ''jwt.'' @ JwtPayload.username payload"

definition seeded_admin :: user_row where
  "seeded_admin =
     \<lparr>User.id = 1, User.username = ''admin'', User.role = Admin,
      UserWithoutPassword.created_at = 100, UserWithoutPassword.updated_at = 100,
      user_row.password = ''$2b$Admin@123''\<rparr>"

definition viewer_vera :: user_row where
  "viewer_vera =
     \<lparr>User.id = 2, User.username = ''vera'', User.role = Viewer,
      UserWithoutPassword.created_at = 120, UserWithoutPassword.updated_at = 130,
      user_row.password = ''$2b$letmein''\<rparr>"

definition viewer_omar :: user_row where
  "viewer_omar =
     \<lparr>User.id = 3, User.username = ''omar'', User.role = Viewer,
      UserWithoutPassword.created_at = 140, UserWithoutPassword.updated_at = 140,
      user_row.password = ''$2b$hunter22''\<rparr>"

definition john :: Customer where
  "john =
     \<lparr>Customer.id = 1, Customer.name = ''John Doe'', Customer.email = ''john@x.com'',
      Customer.phone = ''555-0100'', Customer.company = None, Customer.address = None,
      Customer.created_at = 150, Customer.updated_at = 150\<rparr>"

text \<open>A database nothing has touched yet, and one in service.\<close>

definition fresh_db :: db where
  "fresh_db =
     \<lparr>online = True, now = 100, migrations = None, next_migration_id = 1,
      users = [], next_user_id = 1, customers = [], next_customer_id = 1, issued = []\<rparr>"

definition running_db :: db where
  "running_db =
     \<lparr>online = True, now = 200, migrations = Some [], next_migration_id = 1,
      users = [seeded_admin, viewer_vera, viewer_omar], next_user_id = 4,
      customers = [john], next_customer_id = 2, issued = []\<rparr>"

text \<open>The same database when the server cannot be reached.\<close>

definition unreachable_db :: db where
  "unreachable_db = running_db\<lparr>online := False\<rparr>"

text \<open>The database in service after its only admin, named \<^verbatim>\<open>admin\<close>, was given the
  viewer role through \<^verbatim>\<open>UserService.update\<close>.\<close>

definition demoted_db :: db where
  "demoted_db =
     running_db\<lparr>users :=
       [seeded_admin\<lparr>User.role := Viewer, UserWithoutPassword.updated_at := 200\<rparr>,
        viewer_vera, viewer_omar]\<rparr>"

definition demo_fs :: file_system where
  "demo_fs =
     \<lparr>dirname_migrations = None,
      cwd_src_migrations = Some
        [(''002-users.sql'', ''CREATE TABLE users (id INT);''),
         (''001-customers.sql'', ''CREATE TABLE customers (id INT); CREATE INDEX i ON customers(id); ''),
         (''README.md'', ''not a script'')]\<rparr>"

definition accept_all :: "string \<Rightarrow> unit async" where
  "accept_all statement = (\<lambda>d. (Inr (), d))"

definition reject_all :: "string \<Rightarrow> unit async" where
  "reject_all statement = (\<lambda>d. (Inl (DatabaseError ''ER_PARSE_ERROR''), d))"

text \<open>\<open>fresh_db\<close> after the scripts of \<open>demo_fs\<close> ran under \<open>accept_all\<close>.\<close>

definition migrated_db :: db where
  "migrated_db =
     \<lparr>online = True, now = 100,
      migrations = Some
        [\<lparr>migration_row.id = 1, migration_row.filename = ''001-customers.sql'',
          migration_row.executed_at = 100\<rparr>,
         \<lparr>migration_row.id = 2, migration_row.filename = ''002-users.sql'',
          migration_row.executed_at = 100\<rparr>],
      next_migration_id = 3, users = [], next_user_id = 1, customers = [],
      next_customer_id = 1,
      issued =
        [CreateMigrationsTable,
         SelectMigrationByFilename ''001-customers.sql'',
         MigrationStatement ''CREATE TABLE customers (id INT)'',
         MigrationStatement ''CREATE INDEX i ON customers(id)'',
         InsertMigration ''001-customers.sql'',
         SelectMigrationByFilename ''002-users.sql'',
         MigrationStatement ''CREATE TABLE users (id INT)'',
         InsertMigration ''002-users.sql'']\<rparr>"

definition demo_config :: "string \<Rightarrow> string option" where
  "demo_config =
     map_of [(''NODE_ENV'', ''production''), (''JWT_SECRET'', ''s3cret''),
             (''MYSQL_HOST'', ''db''), (''MYSQL_USERNAME'', ''crm_user''),
             (''MYSQL_PASSWORD'', ''crm_password''), (''MYSQL_NAME'', ''simple_crm'')]"

definition unreachable_app :: app where
  "unreachable_app =
     \<lparr>config = demo_config, clock = ''2025-06-27T08:00:00.000Z'', app_db = unreachable_db\<rparr>"

definition running_app :: app where
  "running_app =
     \<lparr>config = demo_config, clock = ''2025-06-27T08:00:00.000Z'', app_db = running_db\<rparr>"

section \<open>Properties\<close>

subsection \<open>Calls, lookups by key\<close>

lemma await_return [simp]: "await (return x) f = f x"
  by (simp add: await_def return_def)

lemma await_throw [simp]: "await (throw e) f = throw e"
  by (simp add: await_def throw_def)

lemma try_catch_rethrow [simp]: "try_catch m (\<lambda>err. throw err) = m"
  by (rule ext) (simp add: try_catch_def throw_def split: prod.splits sum.splits)

lemma filter_unique_key:
  "distinct (map f xs) \<Longrightarrow> u \<in> set xs \<Longrightarrow> filter (\<lambda>r. f r = f u) xs = [u]"
proof (induction xs)
  case Nil
  then show ?case by simp
next
  case (Cons x xs)
  show ?case
  proof (cases "x = u")
    case True
    have "f u \<notin> f ` set xs"
      using Cons.prems(1) True by simp
    then have "filter (\<lambda>r. f r = f u) xs = []"
      by (auto simp: filter_empty_conv image_iff)
    with True show ?thesis by simp
  next
    case False
    with Cons.prems have "u \<in> set xs" by simp
    moreover from this Cons.prems(1) have "f x \<noteq> f u" by auto
    ultimately show ?thesis using Cons by simp
  qed
qed

lemma filter_absent_key:
  "k \<notin> set (map f xs) \<Longrightarrow> filter (\<lambda>r. f r = k) xs = []"
  by (auto simp: filter_empty_conv)

lemma find_filter:
  "find P xs = Some r \<Longrightarrow> \<exists>rest. filter P xs = r # rest"
  by (induction xs) (auto split: if_splits)

lemma UserService_findById_found:
  assumes "online d" "find (\<lambda>r. User.id r = uid) (users d) = Some r"
  shows "UserService_findById uid d =
           (Inr (UserWithoutPassword.truncate r), d\<lparr>issued := issued d @ [SelectUserById uid]\<rparr>)"
proof -
  from find_filter [OF assms(2)] obtain rest
    where "filter (\<lambda>r. User.id r = uid) (users d) = r # rest" by blast
  with assms(1) show ?thesis
    by (simp add: UserService_findById_def await_def select_user_by_id_def pool_execute_def Let_def return_def)
qed

lemma CustomerService_findById_found:
  assumes "online d" "find (\<lambda>r. Customer.id r = cid) (customers d) = Some c"
  shows "CustomerService_findById cid d = (Inr c, d\<lparr>issued := issued d @ [SelectCustomerById cid]\<rparr>)"
proof -
  from find_filter [OF assms(2)] obtain rest
    where "filter (\<lambda>r. Customer.id r = cid) (customers d) = c # rest" by blast
  with assms(1) show ?thesis
    by (simp add: CustomerService_findById_def await_def select_customer_by_id_def pool_execute_def Let_def
          return_def)
qed

subsection \<open>Unique usernames\<close>

text \<open>The three statements that write to \<^verbatim>\<open>users\<close> keep its usernames distinct.\<close>

lemma insert_user_keeps_unique:
  "distinct (map User.username (users d)) \<Longrightarrow>
   distinct (map User.username (users (snd (insert_user uname pw rl d))))"
  by (simp add: insert_user_def pool_execute_def Let_def)

lemma update_users_keeps_unique:
  "distinct (map User.username (users d)) \<Longrightarrow>
   distinct (map User.username (users (snd (update_users assigns uid d))))"
  by (simp add: update_users_def pool_execute_def Let_def)

lemma delete_user_keeps_unique:
  "distinct (map User.username (users d)) \<Longrightarrow>
   distinct (map User.username (users (snd (delete_user uid d))))"
  by (simp add: delete_user_def pool_execute_def Let_def distinct_map_filter)

subsection \<open>Login\<close>

lemma validateUser_no_row:
  "uname \<notin> set (map User.username (users d)) \<Longrightarrow>
   validateUser compare uname pw d = (Inr None, d\<lparr>issued := issued d @ [SelectUserByUsername uname]\<rparr>)"
  by (cases "online d")
     (simp_all add: validateUser_def try_catch_def await_def select_user_by_username_def
        pool_execute_def Let_def return_def filter_absent_key)

lemma validateUser_wrong_password:
  "distinct (map User.username (users d)) \<Longrightarrow> u \<in> set (users d) \<Longrightarrow>
   \<not> compare pw (user_row.password u) \<Longrightarrow>
   validateUser compare (User.username u) pw d =
     (Inr None, d\<lparr>issued := issued d @ [SelectUserByUsername (User.username u)]\<rparr>)"
  by (cases "online d")
     (simp_all add: validateUser_def try_catch_def await_def select_user_by_username_def
        pool_execute_def Let_def return_def filter_unique_key)


lemma validateUser_valid:
  "online d \<Longrightarrow> distinct (map User.username (users d)) \<Longrightarrow> u \<in> set (users d) \<Longrightarrow>
   compare pw (user_row.password u) \<Longrightarrow>
   validateUser compare (User.username u) pw d =
     (Inr (Some \<lparr>User.id = User.id u, User.username = User.username u, User.role = User.role u\<rparr>),
      d\<lparr>issued := issued d @ [SelectUserByUsername (User.username u)]\<rparr>)"
  by (simp add: validateUser_def try_catch_def await_def select_user_by_username_def
        pool_execute_def Let_def return_def filter_unique_key)

lemma login_None:
  "validateUser compare (LoginDto.username dto) (LoginDto.password dto) d = (Inr None, d') \<Longrightarrow>
   login sign compare dto d = (Inl (UnauthorizedException ''Invalid credentials''), d')"
  by (simp add: login_def await_def throw_def)

lemma validateUser_never_throws:
  "validateUser compare uname pw d \<noteq> (Inl e, d')"
  by (auto simp: validateUser_def try_catch_def await_def return_def select_user_by_username_def
        pool_execute_def Let_def split: list.splits)

lemma login_fails_one_way:
  "fst (login sign compare loginDto d) = Inl e \<Longrightarrow> e = UnauthorizedException ''Invalid credentials''"
  by (auto simp: login_def await_def throw_def return_def Let_def validateUser_never_throws
        split: prod.splits sum.splits option.splits)

text \<open>
  C1.  A login whose username matches no row of \<^verbatim>\<open>users\<close>, and a login whose username
  matches a row (the only one, usernames being unique) whose stored hash does not
  verify the password, end in the same way: \<^verbatim>\<open>UnauthorizedException\<close> with the message
  \<^verbatim>\<open>Invalid credentials\<close>, after the one \<^verbatim>\<open>SELECT\<close> by username.
\<close>

theorem login_invalid_credentials:
  assumes "uname \<notin> set (map User.username (users d))
           \<or> (\<exists>u \<in> set (users d). User.username u = uname
                 \<and> distinct (map User.username (users d))
                 \<and> \<not> compare pw (user_row.password u))"
  shows "login sign compare \<lparr>LoginDto.username = uname, LoginDto.password = pw\<rparr> d =
           (Inl (UnauthorizedException ''Invalid credentials''),
            d\<lparr>issued := issued d @ [SelectUserByUsername uname]\<rparr>)"
  using assms
proof
  assume "uname \<notin> set (map User.username (users d))"
  then show ?thesis by (intro login_None) (simp add: validateUser_no_row)
next
  assume "\<exists>u \<in> set (users d). User.username u = uname
            \<and> distinct (map User.username (users d)) \<and> \<not> compare pw (user_row.password u)"
  then obtain u where "u \<in> set (users d)" "User.username u = uname"
    "distinct (map User.username (users d))" "\<not> compare pw (user_row.password u)" by blast
  then show ?thesis
    using validateUser_wrong_password [of d u compare pw] by (intro login_None) simp
qed

theorem login_invalid_credentials_witness:
  "login demo_sign demo_compare
     \<lparr>LoginDto.username = ''nobody'', LoginDto.password = ''Admin@123''\<rparr> running_db =
     (Inl (UnauthorizedException ''Invalid credentials''),
      running_db\<lparr>issued := [SelectUserByUsername ''nobody'']\<rparr>)
   \<and> login demo_sign demo_compare
     \<lparr>LoginDto.username = ''admin'', LoginDto.password = ''wrong''\<rparr> running_db =
     (Inl (UnauthorizedException ''Invalid credentials''),
      running_db\<lparr>issued := [SelectUserByUsername ''admin'']\<rparr>)"
  using login_invalid_credentials
      [where uname = "''nobody''" and d = running_db and compare = demo_compare
         and pw = "''Admin@123''" and sign = demo_sign]
    login_invalid_credentials
      [where uname = "''admin''" and d = running_db and compare = demo_compare
         and pw = "''wrong''" and sign = demo_sign]
  by (simp add: running_db_def seeded_admin_def viewer_vera_def viewer_omar_def
        demo_compare_def demo_hash_def)

text \<open>
  C2.  When the database is reachable and the password verifies against the stored
  hash of a row of \<^verbatim>\<open>users\<close> (usernames being unique), login returns the token signed
  over the payload \<open>sub\<close>, \<open>username\<close>, \<open>role\<close> of that row, and a user object with
  \<open>id\<close>, \<open>username\<close>, \<open>role\<close>.  The result type has no field for the password hash.
\<close>

theorem login_success:
  assumes "online d" "distinct (map User.username (users d))" "u \<in> set (users d)"
    "compare pw (user_row.password u)"
  shows "login sign compare \<lparr>LoginDto.username = User.username u, LoginDto.password = pw\<rparr> d =
           (Inr \<lparr>access_token = sign \<lparr>JwtPayload.sub = User.id u,
                                        JwtPayload.username = User.username u,
                                        JwtPayload.role = User.role u\<rparr>,
                 user = \<lparr>User.id = User.id u, User.username = User.username u,
                          User.role = User.role u\<rparr>\<rparr>,
            d\<lparr>issued := issued d @ [SelectUserByUsername (User.username u)]\<rparr>)"
  using validateUser_valid [of d u compare pw] assms
  by (simp add: login_def await_def return_def Let_def)

theorem login_success_witness:
  "online running_db \<and> seeded_admin \<in> set (users running_db)
   \<and> demo_compare ''Admin@123'' (user_row.password seeded_admin)
   \<and> login demo_sign demo_compare
         \<lparr>LoginDto.username = ''admin'', LoginDto.password = ''Admin@123''\<rparr> running_db =
       (Inr \<lparr>access_token = ''jwt.admin'',
              user = \<lparr>User.id = 1, User.username = ''admin'', User.role = Admin\<rparr>\<rparr>,
        running_db\<lparr>issued := [SelectUserByUsername ''admin'']\<rparr>)"
  using login_success
      [where d = running_db and u = seeded_admin and compare = demo_compare
         and pw = "''Admin@123''" and sign = demo_sign]
  by (simp add: running_db_def seeded_admin_def viewer_vera_def viewer_omar_def
        demo_compare_def demo_hash_def demo_sign_def)

subsection \<open>Migration runner\<close>

lemma migration_statement_ledger:
  "keeps_ledger exec \<Longrightarrow> migrations (snd (migration_statement exec s d)) = migrations d"
  by (simp add: keeps_ledger_def migration_statement_def pool_execute_def Let_def)

lemma execute_statements_ledger:
  "keeps_ledger exec \<Longrightarrow> migrations (snd (execute_statements exec ss d)) = migrations d"
proof (induction ss arbitrary: d)
  case Nil
  then show ?case by (simp add: return_def)
next
  case (Cons s ss)
  obtain r d1 where step: "migration_statement exec s d = (r, d1)" by (cases "migration_statement exec s d")
  with migration_statement_ledger [OF Cons.prems, of s d] have keep: "migrations d1 = migrations d" by simp
  show ?case
  proof (cases r)
    case (Inl e)
    with step keep show ?thesis by (simp add: await_def)
  next
    case (Inr u)
    with step keep Cons.IH [OF Cons.prems, of d1] show ?thesis by (simp add: await_def)
  qed
qed

lemma runMigration_records:
  assumes keep: "keeps_ledger exec"
    and run: "runMigration exec fs fname d = (Inr (), d')"
  shows "fname \<in> ledger_files d' \<and> ledger_files d \<subseteq> ledger_files d'"
proof -
  let ?d1 = "d\<lparr>issued := issued d @ [SelectMigrationByFilename fname]\<rparr>"
  have on: "online d"
    using run by (auto simp: runMigration_def await_def select_migration_by_filename_def
        pool_execute_def Let_def split: if_splits)
  obtain rows where rows: "migrations d = Some rows"
    using run on by (cases "migrations d") (auto simp: runMigration_def await_def
        select_migration_by_filename_def pool_execute_def Let_def)
  show ?thesis
  proof (cases "filter (\<lambda>r. migration_row.filename r = fname) rows = []")
    case False
    then have d': "d' = ?d1"
      using run on rows by (simp add: runMigration_def await_def select_migration_by_filename_def
          pool_execute_def Let_def return_def)
    from False have "fname \<in> set (map migration_row.filename rows)"
      by (auto simp: filter_empty_conv)
    with d' rows show ?thesis by (simp add: ledger_files_def)
  next
    case True
    then have fresh: "fname \<notin> set (map migration_row.filename rows)"
      by (auto simp: filter_empty_conv)
    from run on rows True obtain migrationSql where
      sql: "readMigrationFile fs fname = Some migrationSql"
      by (cases "readMigrationFile fs fname") (auto simp: runMigration_def await_def
          select_migration_by_filename_def pool_execute_def Let_def throw_def)
    obtain r d2 where ex: "execute_statements exec (statements_of migrationSql) ?d1 = (r, d2)"
      by (cases "execute_statements exec (statements_of migrationSql) ?d1")
    with execute_statements_ledger [OF keep, of "statements_of migrationSql" ?d1] rows
    have rows2: "migrations d2 = Some rows" by simp
    have rest: "await (execute_statements exec (statements_of migrationSql))
             (\<lambda>_. await (insert_migration fname) (\<lambda>_. return ())) ?d1 = (Inr (), d')"
      using run on rows True sql
      by (simp add: runMigration_def await_def select_migration_by_filename_def
          pool_execute_def Let_def)
    with ex have r: "r = Inr ()" and ins: "await (insert_migration fname) (\<lambda>_. return ()) d2 = (Inr (), d')"
      by (cases r; simp add: await_def)+
    from ins rows2 fresh have "migrations d' = Some (rows @
          [\<lparr>migration_row.id = next_migration_id d2, migration_row.filename = fname,
            migration_row.executed_at = now d2\<rparr>])"
      by (auto simp: await_def insert_migration_def pool_execute_def Let_def return_def
          split: if_splits)
    with rows show ?thesis by (auto simp: ledger_files_def)
  qed
qed

lemma run_each_records:
  assumes keep: "keeps_ledger exec"
  shows "run_each exec fs files d = (Inr (), d') \<Longrightarrow> set files \<union> ledger_files d \<subseteq> ledger_files d'"
proof (induction files arbitrary: d)
  case Nil
  then show ?case by (simp add: return_def)
next
  case (Cons fname rest)
  obtain r d1 where step: "runMigration exec fs fname d = (r, d1)"
    by (cases "runMigration exec fs fname d")
  with Cons.prems have r: "r = Inr ()" and tail: "run_each exec fs rest d1 = (Inr (), d')"
    by (cases r; simp add: await_def)+
  from runMigration_records [OF keep] step r
  have "fname \<in> ledger_files d1" "ledger_files d \<subseteq> ledger_files d1" by auto
  with Cons.IH [OF tail] show ?case by auto
qed

lemma runMigration_skips:
  assumes "online d" "fname \<in> ledger_files d"
  shows "runMigration exec fs fname d = (Inr (), d\<lparr>issued := issued d @ [SelectMigrationByFilename fname]\<rparr>)"
proof -
  from assms(2) obtain rows where rows: "migrations d = Some rows"
    and "fname \<in> set (map migration_row.filename rows)"
    by (cases "migrations d") (auto simp: ledger_files_def)
  then have "filter (\<lambda>r. migration_row.filename r = fname) rows \<noteq> []"
    by (auto simp: filter_empty_conv)
  with assms(1) rows show ?thesis
    by (simp add: runMigration_def await_def select_migration_by_filename_def pool_execute_def
        Let_def return_def)
qed

lemma run_each_skips:
  "online d \<Longrightarrow> set files \<subseteq> ledger_files d \<Longrightarrow>
   run_each exec fs files d = (Inr (), d\<lparr>issued := issued d @ map SelectMigrationByFilename files\<rparr>)"
proof (induction files arbitrary: d)
  case Nil
  then show ?case by (simp add: return_def)
next
  case (Cons fname rest)
  let ?d1 = "d\<lparr>issued := issued d @ [SelectMigrationByFilename fname]\<rparr>"
  have step: "runMigration exec fs fname d = (Inr (), ?d1)"
    using Cons.prems by (intro runMigration_skips) simp_all
  have "run_each exec fs rest ?d1 =
      (Inr (), ?d1\<lparr>issued := issued ?d1 @ map SelectMigrationByFilename rest\<rparr>)"
    using Cons.prems by (intro Cons.IH) (simp_all add: ledger_files_def)
  with step show ?case by (simp add: await_def)
qed

lemma runMigration_keeps_table:
  assumes keep: "keeps_ledger exec" and tbl: "migrations d \<noteq> None"
  shows "migrations (snd (runMigration exec fs fname d)) \<noteq> None"
proof -
  let ?d1 = "d\<lparr>issued := issued d @ [SelectMigrationByFilename fname]\<rparr>"
  from tbl obtain rows where rows: "migrations d = Some rows" by auto
  show ?thesis
  proof (cases "online d \<and> filter (\<lambda>r. migration_row.filename r = fname) rows = []")
    case False
    with rows show ?thesis
      by (auto simp: runMigration_def await_def select_migration_by_filename_def pool_execute_def
          Let_def return_def)
  next
    case True
    show ?thesis
    proof (cases "readMigrationFile fs fname")
      case None
      with True rows show ?thesis
        by (simp add: runMigration_def await_def select_migration_by_filename_def pool_execute_def
            Let_def throw_def)
    next
      case (Some migrationSql)
      obtain r d2 where ex: "execute_statements exec (statements_of migrationSql) ?d1 = (r, d2)"
        by (cases "execute_statements exec (statements_of migrationSql) ?d1")
      with execute_statements_ledger [OF keep, of "statements_of migrationSql" ?d1] rows
      have rows2: "migrations d2 = Some rows" by simp
      have "migrations (snd (await (insert_migration fname) (\<lambda>_. return ()) d2)) \<noteq> None"
        using rows2 by (simp add: await_def insert_migration_def pool_execute_def Let_def return_def)
      with True rows Some ex rows2 show ?thesis
        by (cases r) (simp_all add: runMigration_def await_def select_migration_by_filename_def
            pool_execute_def Let_def)
    qed
  qed
qed

lemma run_each_keeps_table:
  assumes keep: "keeps_ledger exec"
  shows "migrations d \<noteq> None \<Longrightarrow> migrations (snd (run_each exec fs files d)) \<noteq> None"
proof (induction files arbitrary: d)
  case Nil
  then show ?case by (simp add: return_def)
next
  case (Cons fname rest)
  obtain r d1 where step: "runMigration exec fs fname d = (r, d1)"
    by (cases "runMigration exec fs fname d")
  with runMigration_keeps_table [OF keep Cons.prems, of fs "fname"]
  have tbl: "migrations d1 \<noteq> None" by simp
  show ?case
  proof (cases r)
    case (Inl e)
    with step tbl show ?thesis by (simp add: await_def)
  next
    case (Inr u)
    with step Cons.IH [OF tbl] show ?thesis by (simp add: await_def)
  qed
qed

lemma demo_first_run: "runMigrations accept_all demo_fs fresh_db = (Inr (), migrated_db)"
  by (simp add: runMigrations_def createMigrationsTable_def create_migrations_table_def
        migrationsDir_def migrationFiles_def demo_fs_def endsWith_def fresh_db_def migrated_db_def
        runMigration_def readMigrationFile_def statements_of_def trim_def is_space_def
        select_migration_by_filename_def insert_migration_def migration_statement_def
        accept_all_def pool_execute_def await_def return_def Let_def)

text \<open>
  C3.  After a run of the migration runner that returned normally, a second run on the
  database it left (still reachable, same directory) returns normally and hands the
  pool only the \<^verbatim>\<open>CREATE TABLE IF NOT EXISTS migrations\<close> statement and one ledger lookup
  per script: no statement of a script and no \<^verbatim>\<open>INSERT\<close> into the ledger.  Every table
  is as the first run left it.  The second run does not depend on what executing a
  script statement would do (\<open>exec'\<close> is arbitrary), so none is executed.  The scripts of
  the first run are taken not to write to the ledger table themselves.
\<close>

theorem runMigrations_idempotent:
  assumes first: "runMigrations exec fs d = (Inr (), d1)"
    and scripts: "\<And>statement s. migrations (snd (exec statement s)) = migrations s"
    and on: "online d1"
  shows "runMigrations exec' fs d1 =
           (Inr (),
            d1\<lparr>issued := issued d1 @ CreateMigrationsTable #
                   (case migrationsDir fs of None \<Rightarrow> []
                    | Some dir \<Rightarrow> map SelectMigrationByFilename (migrationFiles dir))\<rparr>)"
proof -
  have keep: "keeps_ledger exec"
    by (simp add: keeps_ledger_def scripts)
  let ?c = "d\<lparr>issued := issued d @ [CreateMigrationsTable]\<rparr>"
  let ?d0 = "?c\<lparr>migrations := Some (case migrations ?c of None \<Rightarrow> [] | Some rows \<Rightarrow> rows)\<rparr>"
  have on0: "online d"
    using first by (auto simp: runMigrations_def createMigrationsTable_def create_migrations_table_def
        await_def pool_execute_def Let_def split: if_splits)
  then have created: "createMigrationsTable d = (Inr (), ?d0)"
    by (simp add: createMigrationsTable_def create_migrations_table_def pool_execute_def Let_def)
  have some0: "ledger_files ?d0 \<subseteq> ledger_files d1 \<and> migrations d1 \<noteq> None
     \<and> (case migrationsDir fs of None \<Rightarrow> True | Some dir \<Rightarrow> set (migrationFiles dir) \<subseteq> ledger_files d1)"
  proof (cases "migrationsDir fs")
    case None
    with first created have "d1 = ?d0" by (simp add: runMigrations_def await_def return_def)
    with None show ?thesis by simp
  next
    case (Some dir)
    with first created have run: "run_each exec fs (migrationFiles dir) ?d0 = (Inr (), d1)"
      by (simp add: runMigrations_def await_def)
    have "migrations (snd (run_each exec fs (migrationFiles dir) ?d0)) \<noteq> None"
      by (rule run_each_keeps_table [OF keep]) simp
    with run_each_records [OF keep run] Some run show ?thesis by simp
  qed
  then obtain rows1 where rows1: "migrations d1 = Some rows1" by auto
  let ?c1 = "d1\<lparr>issued := issued d1 @ [CreateMigrationsTable]\<rparr>"
  have again: "createMigrationsTable d1 = (Inr (), ?c1)"
    using on rows1
    by (simp add: createMigrationsTable_def create_migrations_table_def pool_execute_def Let_def)
  show ?thesis
  proof (cases "migrationsDir fs")
    case None
    with again show ?thesis
      by (simp add: runMigrations_def await_def return_def)
  next
    case (Some dir)
    with some0 have "set (migrationFiles dir) \<subseteq> ledger_files ?c1"
      by (simp add: ledger_files_def)
    with on have "run_each exec' fs (migrationFiles dir) ?c1 =
        (Inr (), ?c1\<lparr>issued := issued ?c1 @ map SelectMigrationByFilename (migrationFiles dir)\<rparr>)"
      by (intro run_each_skips) simp_all
    with again Some show ?thesis
      by (simp add: runMigrations_def await_def)
  qed
qed

theorem runMigrations_idempotent_witness:
  "runMigrations accept_all demo_fs fresh_db = (Inr (), migrated_db) \<and> online migrated_db
   \<and> runMigrations reject_all demo_fs migrated_db =
       (Inr (),
        migrated_db\<lparr>issued := issued migrated_db @
          [CreateMigrationsTable, SelectMigrationByFilename ''001-customers.sql'',
           SelectMigrationByFilename ''002-users.sql'']\<rparr>)"
proof -
  have files: "migrationsDir demo_fs = Some (the (cwd_src_migrations demo_fs))"
    "migrationFiles (the (cwd_src_migrations demo_fs)) = [''001-customers.sql'', ''002-users.sql'']"
    by (simp_all add: migrationsDir_def migrationFiles_def demo_fs_def endsWith_def)
  have on: "online migrated_db" by (simp add: migrated_db_def)
  have scripts: "\<And>statement s. migrations (snd (accept_all statement s)) = migrations s"
    by (simp add: accept_all_def)
  from runMigrations_idempotent [OF demo_first_run scripts on, of reject_all]
  show ?thesis by (simp add: demo_first_run on files)
qed

subsection \<open>Admin seeder\<close>

lemma default_admin_row_role [simp]: "User.role (default_admin_row hash d) = Admin"
  by (simp add: default_admin_row_def)

lemma select_admin_nonempty:
  "(take 1 (map User.id (filter (\<lambda>r. User.role r = Admin) us)) \<noteq> []) = (Admin \<in> set (map User.role us))"
  by (induction us) auto

lemma seed_with_admin:
  assumes "online d" "Admin \<in> set (map User.role (users d))"
  shows "seedDefaultAdmin hash d = (Inr (), d\<lparr>issued := issued d @ [SelectAdminId]\<rparr>)"
proof -
  from assms(2) have "take 1 (map User.id (filter (\<lambda>r. User.role r = Admin) (users d))) \<noteq> []"
    by (simp only: select_admin_nonempty)
  with assms(1) show ?thesis
    by (simp add: seedDefaultAdmin_def await_def select_admin_id_def pool_execute_def Let_def return_def)
qed

lemma seed_without_admin:
  assumes "online d" "Admin \<notin> set (map User.role (users d))"
    "''admin'' \<notin> set (map User.username (users d))"
  shows "seedDefaultAdmin hash d =
     (Inr (), d\<lparr>issued := issued d @ [SelectAdminId, InsertUser ''admin'' (hash ''Admin@123'' 10) Admin],
                users := users d @ [default_admin_row hash d],
                next_user_id := next_user_id d + 1\<rparr>)"
proof -
  from assms(2) have "take 1 (map User.id (filter (\<lambda>r. User.role r = Admin) (users d))) = []"
    using select_admin_nonempty [of "users d"] by blast
  with assms(1,3) show ?thesis
    by (simp add: seedDefaultAdmin_def await_def select_admin_id_def insert_user_def pool_execute_def
        Let_def return_def default_admin_row_def)
qed

text \<open>On a reachable database: when a row with role admin exists the seeder inserts
  nothing; when none exists and the username \<^verbatim>\<open>admin\<close> is free it inserts exactly one
  row, with username \<^verbatim>\<open>admin\<close>, the hash of \<^verbatim>\<open>Admin@123\<close> and role admin.  Either way
  it returns normally, an admin exists afterwards, and a second call in succession
  returns normally and leaves the \<^verbatim>\<open>users\<close> table as the first call left it.\<close>

lemma seedDefaultAdmin_idempotent:
  assumes "online d"
    and "Admin \<notin> set (map User.role (users d)) \<longrightarrow> ''admin'' \<notin> set (map User.username (users d))"
  shows "let d1 = snd (seedDefaultAdmin hash d); d2 = snd (seedDefaultAdmin hash d1)
         in fst (seedDefaultAdmin hash d) = Inr ()
          \<and> users d1 = (if Admin \<in> set (map User.role (users d)) then users d
                         else users d @ [default_admin_row hash d])
          \<and> Admin \<in> set (map User.role (users d1))
          \<and> fst (seedDefaultAdmin hash d1) = Inr ()
          \<and> users d2 = users d1"
proof (cases "Admin \<in> set (map User.role (users d))")
  case True
  let ?d1 = "d\<lparr>issued := issued d @ [SelectAdminId]\<rparr>"
  have one: "seedDefaultAdmin hash d = (Inr (), ?d1)"
    by (rule seed_with_admin [OF assms(1) True])
  have two: "seedDefaultAdmin hash ?d1 = (Inr (), ?d1\<lparr>issued := issued ?d1 @ [SelectAdminId]\<rparr>)"
    by (rule seed_with_admin) (use assms(1) True in simp_all)
  show ?thesis using True by (simp add: Let_def one two)
next
  case False
  let ?d1 = "d\<lparr>issued := issued d @ [SelectAdminId, InsertUser ''admin'' (hash ''Admin@123'' 10) Admin],
                users := users d @ [default_admin_row hash d],
                next_user_id := next_user_id d + 1\<rparr>"
  have one: "seedDefaultAdmin hash d = (Inr (), ?d1)"
    by (rule seed_without_admin) (use assms False in simp_all)
  have two: "seedDefaultAdmin hash ?d1 = (Inr (), ?d1\<lparr>issued := issued ?d1 @ [SelectAdminId]\<rparr>)"
    by (rule seed_with_admin) (use assms(1) in simp_all)
  show ?thesis using False by (simp add: Let_def one two)
qed

lemma seedDefaultAdmin_on_fresh_db:
  "online fresh_db
   \<and> fst (seedDefaultAdmin demo_hash fresh_db) = Inr ()
   \<and> users (snd (seedDefaultAdmin demo_hash fresh_db)) = [seeded_admin]
   \<and> fst (seedDefaultAdmin demo_hash (snd (seedDefaultAdmin demo_hash fresh_db))) = Inr ()
   \<and> users (snd (seedDefaultAdmin demo_hash (snd (seedDefaultAdmin demo_hash fresh_db)))) =
       [seeded_admin]"
  using seedDefaultAdmin_idempotent [where d = fresh_db and hash = demo_hash]
  by (simp add: Let_def fresh_db_def default_admin_row_def seeded_admin_def demo_hash_def)

text \<open>A state without an admin in which the username \<^verbatim>\<open>admin\<close> is taken: the seeded
  admin gives itself the viewer role.\<close>

lemma demoting_the_admin:
  "UserService_update demo_hash 1
     \<lparr>UpdateUserDto.username = None, UpdateUserDto.password = None,
      UpdateUserDto.role = Some Viewer\<rparr> running_db =
   (Inr (UserWithoutPassword.truncate
          (seeded_admin\<lparr>User.role := Viewer, UserWithoutPassword.updated_at := 200\<rparr>)),
    demoted_db\<lparr>issued :=
      [SelectUserById 1, UpdateUsers [SetRole Viewer, SetUserUpdatedAtNow] 1, SelectUserById 1]\<rparr>)"
  by (simp add: UserService_update_def UserService_findById_def select_user_by_id_def
        update_users_def pool_execute_def await_def return_def truthy_def Let_def
        demoted_db_def running_db_def seeded_admin_def viewer_vera_def viewer_omar_def)

text \<open>
  C4.  The seeder is to insert the default admin whenever no row has the role admin,
  so that an admin exists once it is done.  In the state above it does not: no admin
  exists, the \<^verbatim>\<open>INSERT\<close> violates the unique key on \<^verbatim>\<open>username\<close>, the seeder rethrows,
  nothing is inserted and there is still no admin.
\<close>

theorem seedDefaultAdmin_username_taken:
  "Admin \<notin> set (map User.role (users demoted_db))
   \<and> seedDefaultAdmin demo_hash demoted_db =
       (Inl (DatabaseError ''ER_DUP_ENTRY''),
        demoted_db\<lparr>issued := [SelectAdminId, InsertUser ''admin'' ''$2b$Admin@123'' Admin]\<rparr>)
   \<and> users (snd (seedDefaultAdmin demo_hash demoted_db)) = users demoted_db"
  by (simp add: seedDefaultAdmin_def select_admin_id_def insert_user_def pool_execute_def
        await_def try_catch_def throw_def Let_def demoted_db_def running_db_def seeded_admin_def
        viewer_vera_def viewer_omar_def demo_hash_def)

subsection \<open>Deleting users\<close>

text \<open>
  C5.  Whoever the acting identity is (its role is not an argument of the service),
  deleting one's own id fails with Conflict.  The database is left exactly as it was,
  the statement log included: nothing, so no \<^verbatim>\<open>DELETE\<close>, reaches the pool.
\<close>

theorem UserService_delete_self_conflict:
  "UserService_delete uid uid d = (Inl (ConflictException ''Cannot delete your own account''), d)"
  by (simp add: UserService_delete_def throw_def)

theorem UserService_delete_self_conflict_witness:
  "UserService_delete 1 1 running_db =
     (Inl (ConflictException ''Cannot delete your own account''), running_db)
   \<and> UserService_delete 2 2 unreachable_db =
     (Inl (ConflictException ''Cannot delete your own account''), unreachable_db)"
  using UserService_delete_self_conflict [of 1 running_db]
    UserService_delete_self_conflict [of 2 unreachable_db]
  by simp

subsection \<open>Pagination\<close>

lemma ceiling_pages_bounds:
  fixes T L :: int
  assumes "1 \<le> L"
  shows "(\<lceil>real_of_int T / real_of_int L\<rceil> - 1) * L < T \<and> T \<le> \<lceil>real_of_int T / real_of_int L\<rceil> * L"
proof -
  let ?c = "\<lceil>real_of_int T / real_of_int L\<rceil>"
  have Lpos: "0 < real_of_int L" using assms by simp
  have "real_of_int T / real_of_int L \<le> real_of_int ?c" by (rule le_of_int_ceiling)
  then have "real_of_int T \<le> real_of_int ?c * real_of_int L"
    by (simp only: pos_divide_le_eq [OF Lpos])
  then have up: "T \<le> ?c * L" by (metis of_int_le_iff of_int_mult)
  have "real_of_int ?c - 1 < real_of_int T / real_of_int L" by linarith
  then have "(real_of_int ?c - 1) * real_of_int L < real_of_int T"
    by (simp only: pos_less_divide_eq [OF Lpos])
  then have "real_of_int ((?c - 1) * L) < real_of_int T" by simp
  then have lo: "(?c - 1) * L < T" by (simp only: of_int_less_iff)
  from lo up show ?thesis by simp
qed

lemma ceiling_pages_div:
  fixes T L :: int
  assumes "1 \<le> L"
  shows "\<lceil>real_of_int T / real_of_int L\<rceil> = (T + L - 1) div L"
proof -
  let ?c = "\<lceil>real_of_int T / real_of_int L\<rceil>"
  from ceiling_pages_bounds [OF assms, of T]
  have lo: "(?c - 1) * L < T" and up: "T \<le> ?c * L" by simp_all
  have "?c * L \<le> T + L - 1" using lo by (simp add: algebra_simps)
  moreover have "T + L - 1 < (?c + 1) * L" using up assms by (simp add: algebra_simps)
  ultimately have "(T + L - 1) div L = ?c"
    using assms by (intro int_div_pos_eq [where r = "T + L - 1 - ?c * L"]) (simp_all add: algebra_simps)
  then show ?thesis by simp
qed

lemma UserService_findAll_online:
  assumes "online d" "0 \<le> L" "1 \<le> P"
  shows "UserService_findAll (Some \<lparr>PaginationQueryDto.page = Some P, PaginationQueryDto.limit = Some L\<rparr>) d =
     (Inr \<lparr>data = take (nat L) (drop (nat ((P - 1) * L))
                     (map UserWithoutPassword.truncate
                        (rev (sort_key UserWithoutPassword.created_at (users d))))),
           pagination = pagination_meta (int (length (users d))) P L\<rparr>,
      d\<lparr>issued := issued d @ [CountUsers, SelectUsersPage L ((P - 1) * L)]\<rparr>)"
  using assms
  by (simp add: mult_less_0_iff UserService_findAll_def page_or_default_def limit_or_default_def Let_def await_def
        count_users_def select_users_page_def pool_execute_def return_def)

lemma CustomerService_findAll_online:
  assumes "online d" "0 \<le> L" "1 \<le> P"
  shows "CustomerService_findAll (Some \<lparr>PaginationQueryDto.page = Some P, PaginationQueryDto.limit = Some L\<rparr>) d =
     (Inr \<lparr>data = take (nat L) (drop (nat ((P - 1) * L))
                     (rev (sort_key Customer.created_at (customers d)))),
           pagination = pagination_meta (int (length (customers d))) P L\<rparr>,
      d\<lparr>issued := issued d @ [CountCustomers, SelectCustomersPage L ((P - 1) * L)]\<rparr>)"
  using assms
  by (simp add: mult_less_0_iff CustomerService_findAll_def page_or_default_def limit_or_default_def Let_def await_def
        count_customers_def select_customers_page_def pool_execute_def return_def)

text \<open>
  C6.  With the database reachable, for a limit \<open>L\<close> in \<open>[1, 100]\<close> and a page \<open>P \<ge> 1\<close>,
  both list operations report \<open>total\<close> = the number \<open>T\<close> of rows of their table,
  \<open>totalPages\<close> = the ceiling of \<open>T / L\<close>, \<open>hasNext\<close> = \<open>P < totalPages\<close> and
  \<open>hasPrev\<close> = \<open>P > 1\<close>.  The ceiling is the least number of pages of \<open>L\<close> rows that
  hold \<open>T\<close> rows: one page fewer is too few.
\<close>

theorem pagination_metadata:
  assumes "online d" and "1 \<le> L" and "L \<le> 100" and "1 \<le> P"
  shows "let q = Some \<lparr>PaginationQueryDto.page = Some P, PaginationQueryDto.limit = Some L\<rparr>;
             Tu = int (length (users d));
             Tc = int (length (customers d));
             pages_u = \<lceil>real_of_int Tu / real_of_int L\<rceil>;
             pages_c = \<lceil>real_of_int Tc / real_of_int L\<rceil>
         in pagination_of (UserService_findAll q d) =
              Some \<lparr>PaginationMetaDto.total = Tu, PaginationMetaDto.page = P,
                    PaginationMetaDto.limit = L, PaginationMetaDto.totalPages = pages_u,
                    PaginationMetaDto.hasNext = (P < pages_u),
                    PaginationMetaDto.hasPrev = (P > 1)\<rparr>
          \<and> pagination_of (CustomerService_findAll q d) =
              Some \<lparr>PaginationMetaDto.total = Tc, PaginationMetaDto.page = P,
                    PaginationMetaDto.limit = L, PaginationMetaDto.totalPages = pages_c,
                    PaginationMetaDto.hasNext = (P < pages_c),
                    PaginationMetaDto.hasPrev = (P > 1)\<rparr>
          \<and> (pages_u - 1) * L < Tu \<and> Tu \<le> pages_u * L
          \<and> (pages_c - 1) * L < Tc \<and> Tc \<le> pages_c * L"
proof -
  have L0: "0 \<le> L" using assms(2) by simp
  show ?thesis
    using ceiling_pages_bounds [OF assms(2), of "int (length (users d))"]
      ceiling_pages_bounds [OF assms(2), of "int (length (customers d))"]
    by (simp add: Let_def pagination_of_def UserService_findAll_online [OF assms(1) L0 assms(4)]
          CustomerService_findAll_online [OF assms(1) L0 assms(4)] pagination_meta_def)
qed

theorem pagination_metadata_witness:
  "pagination_of (UserService_findAll
       (Some \<lparr>PaginationQueryDto.page = Some 1, PaginationQueryDto.limit = Some 2\<rparr>) running_db) =
     Some \<lparr>PaginationMetaDto.total = 3, PaginationMetaDto.page = 1, PaginationMetaDto.limit = 2,
           PaginationMetaDto.totalPages = 2, PaginationMetaDto.hasNext = True,
           PaginationMetaDto.hasPrev = False\<rparr>
   \<and> pagination_of (CustomerService_findAll
       (Some \<lparr>PaginationQueryDto.page = Some 1, PaginationQueryDto.limit = Some 2\<rparr>) running_db) =
     Some \<lparr>PaginationMetaDto.total = 1, PaginationMetaDto.page = 1, PaginationMetaDto.limit = 2,
           PaginationMetaDto.totalPages = 1, PaginationMetaDto.hasNext = False,
           PaginationMetaDto.hasPrev = False\<rparr>"
  using pagination_metadata [where d = running_db and L = 2 and P = 1]
  by (simp add: Let_def running_db_def)

subsection \<open>Startup\<close>

lemma execute_statements_abort:
  assumes "execute_statements exec before d = (Inr (), dm)"
    and "migration_statement exec statement dm = (Inl e, d')"
  shows "execute_statements exec (before @ statement # rest) d = (Inl e, d')"
  using assms
proof (induction before arbitrary: d)
  case Nil
  then show ?case by (simp add: return_def await_def)
next
  case (Cons s ss)
  obtain r d1 where step: "migration_statement exec s d = (r, d1)"
    by (cases "migration_statement exec s d")
  with Cons.prems(1) have r: "r = Inr ()" and tail: "execute_statements exec ss d1 = (Inr (), dm)"
    by (cases r; simp add: await_def)+
  from Cons.IH [OF tail Cons.prems(2)] step r show ?case by (simp add: await_def)
qed

lemma runMigration_abort:
  assumes "online d" "migrations d \<noteq> None" "fname \<notin> ledger_files d"
    and "readMigrationFile fs fname = Some migrationSql"
    and "execute_statements exec (statements_of migrationSql)
           (d\<lparr>issued := issued d @ [SelectMigrationByFilename fname]\<rparr>) = (Inl e, d')"
  shows "runMigration exec fs fname d = (Inl e, d')"
proof -
  from assms(2) obtain rows where rows: "migrations d = Some rows" by auto
  with assms(3) have "filter (\<lambda>r. migration_row.filename r = fname) rows = []"
    by (auto simp: ledger_files_def filter_empty_conv)
  with assms rows show ?thesis
    by (simp add: runMigration_def await_def select_migration_by_filename_def pool_execute_def Let_def)
qed

lemma run_each_abort:
  assumes "run_each exec fs before d = (Inr (), dm)"
    and "runMigration exec fs fname dm = (Inl e, d')"
  shows "run_each exec fs (before @ fname # rest) d = (Inl e, d')"
  using assms
proof (induction before arbitrary: d)
  case Nil
  then show ?case by (simp add: return_def await_def)
next
  case (Cons f fs')
  obtain r d1 where step: "runMigration exec fs f d = (r, d1)"
    by (cases "runMigration exec fs f d")
  with Cons.prems(1) have r: "r = Inr ()" and tail: "run_each exec fs fs' d1 = (Inr (), dm)"
    by (cases r; simp add: await_def)+
  from Cons.IH [OF tail Cons.prems(2)] step r show ?case by (simp add: await_def)
qed

lemma runMigrations_abort:
  assumes "createMigrationsTable d = (Inr (), d0)"
    and "migrationsDir fs = Some dir"
    and "migrationFiles dir = before @ fname # rest"
    and "run_each exec fs before d0 = (Inr (), dm)"
    and "runMigration exec fs fname dm = (Inl e, d')"
  shows "runMigrations exec fs d = (Inl e, d')"
  using assms run_each_abort [of exec fs before d0 dm fname e d' rest]
  by (simp add: runMigrations_def await_def)

text \<open>A statement that fails, anywhere in any pending script, makes the run throw.\<close>

lemma statement_failure_aborts_run:
  assumes "createMigrationsTable d = (Inr (), d0)"
    and "migrationsDir fs = Some dir"
    and "migrationFiles dir = before @ fname # rest"
    and "run_each exec fs before d0 = (Inr (), dm)"
    and "online dm" and "migrations dm \<noteq> None" and "fname \<notin> ledger_files dm"
    and "readMigrationFile fs fname = Some migrationSql"
    and "statements_of migrationSql = pre @ statement # post"
    and "execute_statements exec pre
           (dm\<lparr>issued := issued dm @ [SelectMigrationByFilename fname]\<rparr>) = (Inr (), ds)"
    and "migration_statement exec statement ds = (Inl e, d')"
  shows "runMigrations exec fs d = (Inl e, d')"
proof -
  have "execute_statements exec (statements_of migrationSql)
          (dm\<lparr>issued := issued dm @ [SelectMigrationByFilename fname]\<rparr>) = (Inl e, d')"
    using execute_statements_abort [OF assms(10) assms(11), of post] assms(9) by simp
  then have "runMigration exec fs fname dm = (Inl e, d')"
    by (rule runMigration_abort [OF assms(5) assms(6) assms(7) assms(8)])
  with assms(1-4) show ?thesis by (rule runMigrations_abort)
qed

lemma demo_failed_run:
  "runMigrations reject_all demo_fs fresh_db =
     (Inl (DatabaseError ''ER_PARSE_ERROR''),
      fresh_db\<lparr>migrations := Some [],
        issued := [CreateMigrationsTable, SelectMigrationByFilename ''001-customers.sql'',
                   MigrationStatement ''CREATE TABLE customers (id INT)'']\<rparr>)"
  by (simp add: runMigrations_def createMigrationsTable_def create_migrations_table_def
        migrationsDir_def migrationFiles_def demo_fs_def endsWith_def fresh_db_def
        runMigration_def readMigrationFile_def statements_of_def trim_def is_space_def
        select_migration_by_filename_def insert_migration_def migration_statement_def
        reject_all_def pool_execute_def await_def return_def Let_def)

text \<open>
  C7.  The failure of a migration statement aborts the rest of the run and
  \<^verbatim>\<open>runMigrations\<close> rethrows it; \<^verbatim>\<open>bootstrap\<close> catches the error, skips the seeding and
  goes on to \<^verbatim>\<open>app.listen\<close>: the server accepts requests, on the database as the failed
  run left it.  The process exits only when \<^verbatim>\<open>bootstrap\<close> itself rejects, as it does
  when the pool cannot reach the server during \<^verbatim>\<open>app.init()\<close>.
\<close>

theorem bootstrap_survives_failed_migration:
  "(online d \<longrightarrow> runMigrations exec fs d = (Inl e, d') \<longrightarrow>
      bootstrap exec hash fs d = (Listening, d'))
   \<and> (\<not> online d \<longrightarrow> bootstrap exec hash fs d = (Exited 1, d))"
  by (simp add: bootstrap_def try_catch_def await_def return_def)

theorem bootstrap_survives_failed_migration_witness:
  "online fresh_db
   \<and> fst (runMigrations reject_all demo_fs fresh_db) = Inl (DatabaseError ''ER_PARSE_ERROR'')
   \<and> bootstrap reject_all demo_hash demo_fs fresh_db =
       (Listening, snd (runMigrations reject_all demo_fs fresh_db))
   \<and> bootstrap reject_all demo_hash demo_fs unreachable_db = (Exited 1, unreachable_db)"
  using bootstrap_survives_failed_migration
      [where d = fresh_db and exec = reject_all and fs = demo_fs and hash = demo_hash
         and e = "DatabaseError ''ER_PARSE_ERROR''"
         and d' = "snd (runMigrations reject_all demo_fs fresh_db)"]
    bootstrap_survives_failed_migration
      [where d = unreachable_db and exec = reject_all and fs = demo_fs and hash = demo_hash]
  by (simp add: demo_failed_run) (simp add: fresh_db_def unreachable_db_def running_db_def)

text \<open>
  The claim as worded fails: the first statement of the first script is rejected,
  the runner throws, and the server listens all the same.
\<close>

theorem failed_migration_still_listening:
  "fst (runMigrations reject_all demo_fs fresh_db) = Inl (DatabaseError ''ER_PARSE_ERROR'')
   \<and> fst (bootstrap reject_all demo_hash demo_fs fresh_db) = Listening"
  by (simp add: demo_failed_run bootstrap_def try_catch_def await_def return_def)
     (simp add: fresh_db_def)

subsection \<open>Database failures at request time\<close>

text \<open>What the operations of the user and customer services can fail with.  None of
  them catches an error: a failure is the error of the pool, or an exception the
  operation throws itself after the lookup it rests on has returned.\<close>

lemma database_error_500: "database_error e \<Longrightarrow> http_status e = 500"
  by (cases e) simp_all







lemma UserService_findById_outcome:
  "UserService_findById uid d = (r, d') \<Longrightarrow> d' = d\<lparr>issued := issued d @ [SelectUserById uid]\<rparr>"
  by (auto simp: UserService_findById_def await_def select_user_by_id_def pool_execute_def Let_def
        throw_def return_def split: list.splits if_splits)

lemma CustomerService_findById_outcome:
  "CustomerService_findById cid d = (r, d') \<Longrightarrow>
   d' = d\<lparr>issued := issued d @ [SelectCustomerById cid]\<rparr>"
  by (auto simp: CustomerService_findById_def await_def select_customer_by_id_def pool_execute_def
        Let_def throw_def return_def split: list.splits if_splits)














lemma only_fails_with_database: "fst outcome = Inl (DatabaseError m) \<Longrightarrow> only_fails_with outcome own"
  by (simp add: only_fails_with_def)













subsection \<open>Readiness\<close>

text \<open>
  C9.  The readiness result of the \<^verbatim>\<open>HealthService\<close> that holds the
  \<^verbatim>\<open>DatabaseService\<close> reflects both checks: the database status is \<^verbatim>\<open>ok\<close> exactly
  when the server answers the ping, the configuration status is \<^verbatim>\<open>ok\<close> exactly when
  the six required keys are set and not empty, and the status is \<^verbatim>\<open>ready\<close> exactly
  when both are \<^verbatim>\<open>ok\<close>.  In every state in which the database is unreachable the
  database status is \<^verbatim>\<open>error\<close>, not \<^verbatim>\<open>ok\<close>.
\<close>

theorem readiness_reflects_database:
  "database (checks (getReadiness_with_database a)) =
     (if online (app_db a) then ''ok'' else ''error'')
   \<and> configuration (checks (getReadiness_with_database a)) =
     (if list_all (\<lambda>key. truthy (config a key))
           [''NODE_ENV'', ''JWT_SECRET'', ''MYSQL_HOST'', ''MYSQL_USERNAME'', ''MYSQL_PASSWORD'',
            ''MYSQL_NAME'']
      then ''ok'' else ''error'')
   \<and> status (getReadiness_with_database a) =
     (if online (app_db a)
         \<and> list_all (\<lambda>key. truthy (config a key))
              [''NODE_ENV'', ''JWT_SECRET'', ''MYSQL_HOST'', ''MYSQL_USERNAME'',
               ''MYSQL_PASSWORD'', ''MYSQL_NAME'']
      then ''ready'' else ''not_ready'')
   \<and> (\<not> online (app_db a) \<longrightarrow> database (checks (getReadiness_with_database a)) \<noteq> ''ok'')"
  by (simp add: getReadiness_with_database_def getReadinessStatus_with_database_def
        checkDatabase_def checkConnection_def checkConfiguration_six_def Let_def)

theorem readiness_reflects_database_witness:
  "\<not> online (app_db unreachable_app)
   \<and> database (checks (getReadiness_with_database unreachable_app)) = ''error''
   \<and> configuration (checks (getReadiness_with_database unreachable_app)) = ''ok''
   \<and> status (getReadiness_with_database unreachable_app) = ''not_ready''
   \<and> online (app_db running_app)
   \<and> database (checks (getReadiness_with_database running_app)) = ''ok''
   \<and> status (getReadiness_with_database running_app) = ''ready''"
  using readiness_reflects_database [of unreachable_app]
    readiness_reflects_database [of running_app]
  by (simp add: unreachable_app_def running_app_def unreachable_db_def running_db_def
        demo_config_def truthy_def)

text \<open>The configuration-only \<^verbatim>\<open>HealthService\<close>, whose database status is a
  placeholder (\<^verbatim>\<open>'ok', // Will be implemented with actual DB connection\<close>), has no
  database to look at: its result depends on the configuration alone.\<close>

lemma readiness_ignores_database:
  "database (checks (getReadiness a)) = ''ok''
   \<and> status (getReadiness a) = ''ready''
   \<and> configuration (checks (getReadiness a)) =
       (if truthy (config a ''NODE_ENV'') \<and> truthy (config a ''JWT_SECRET'') then ''ok''
        else ''error'')"
  by (simp add: getReadiness_def getReadinessStatus_def checkConfiguration_def)

subsection \<open>Updates without fields\<close>

text \<open>
  C10.  With the database reachable, an update of an existing user or customer whose
  patch defines no field hands the pool two lookups by id and nothing else (no
  \<^verbatim>\<open>UPDATE\<close>), returns the stored record, and leaves every table, so every stored
  field and \<^verbatim>\<open>updated_at\<close> with them, as it was.
\<close>

theorem update_without_fields:
  assumes "online d"
  shows "(find (\<lambda>r. User.id r = uid) (users d) = Some r \<longrightarrow>
            UserService_update hash uid
              \<lparr>UpdateUserDto.username = None, UpdateUserDto.password = None,
               UpdateUserDto.role = None\<rparr> d =
            (Inr (UserWithoutPassword.truncate r),
             d\<lparr>issued := issued d @ [SelectUserById uid, SelectUserById uid]\<rparr>))
       \<and> (find (\<lambda>r. Customer.id r = cid) (customers d) = Some c \<longrightarrow>
            CustomerService_update cid
              \<lparr>UpdateCustomerDto.name = None, UpdateCustomerDto.email = None,
               UpdateCustomerDto.phone = None, UpdateCustomerDto.company = None,
               UpdateCustomerDto.address = None\<rparr> d =
            (Inr c, d\<lparr>issued := issued d @ [SelectCustomerById cid, SelectCustomerById cid]\<rparr>))"
proof (intro conjI impI)
  assume found: "find (\<lambda>r. User.id r = uid) (users d) = Some r"
  let ?d1 = "d\<lparr>issued := issued d @ [SelectUserById uid]\<rparr>"
  have first: "UserService_findById uid d = (Inr (UserWithoutPassword.truncate r), ?d1)"
    by (rule UserService_findById_found [OF assms found])
  have again: "UserService_findById uid ?d1 =
      (Inr (UserWithoutPassword.truncate r), ?d1\<lparr>issued := issued ?d1 @ [SelectUserById uid]\<rparr>)"
    by (rule UserService_findById_found) (use assms found in simp_all)
  show "UserService_update hash uid
          \<lparr>UpdateUserDto.username = None, UpdateUserDto.password = None, UpdateUserDto.role = None\<rparr> d =
        (Inr (UserWithoutPassword.truncate r),
         d\<lparr>issued := issued d @ [SelectUserById uid, SelectUserById uid]\<rparr>)"
    by (simp add: UserService_update_def truthy_def await_def return_def first again)
next
  assume found: "find (\<lambda>r. Customer.id r = cid) (customers d) = Some c"
  let ?d1 = "d\<lparr>issued := issued d @ [SelectCustomerById cid]\<rparr>"
  have first: "CustomerService_findById cid d = (Inr c, ?d1)"
    by (rule CustomerService_findById_found [OF assms found])
  have again: "CustomerService_findById cid ?d1 =
      (Inr c, ?d1\<lparr>issued := issued ?d1 @ [SelectCustomerById cid]\<rparr>)"
    by (rule CustomerService_findById_found) (use assms found in simp_all)
  show "CustomerService_update cid
          \<lparr>UpdateCustomerDto.name = None, UpdateCustomerDto.email = None,
           UpdateCustomerDto.phone = None, UpdateCustomerDto.company = None,
           UpdateCustomerDto.address = None\<rparr> d =
        (Inr c, d\<lparr>issued := issued d @ [SelectCustomerById cid, SelectCustomerById cid]\<rparr>)"
    by (simp add: CustomerService_update_def customer_update_fields_def await_def return_def first again)
qed

theorem update_without_fields_witness:
  "UserService_update demo_hash 2
     \<lparr>UpdateUserDto.username = None, UpdateUserDto.password = None, UpdateUserDto.role = None\<rparr>
     running_db =
     (Inr (UserWithoutPassword.truncate viewer_vera),
      running_db\<lparr>issued := [SelectUserById 2, SelectUserById 2]\<rparr>)
   \<and> CustomerService_update 1
     \<lparr>UpdateCustomerDto.name = None, UpdateCustomerDto.email = None,
      UpdateCustomerDto.phone = None, UpdateCustomerDto.company = None,
      UpdateCustomerDto.address = None\<rparr> running_db =
     (Inr john, running_db\<lparr>issued := [SelectCustomerById 1, SelectCustomerById 1]\<rparr>)"
  using update_without_fields
      [where d = running_db and uid = 2 and r = viewer_vera and cid = 1 and c = john
         and hash = demo_hash]
  by (simp add: running_db_def seeded_admin_def viewer_vera_def viewer_omar_def john_def)

end
